theory Spec2Isabelle
  imports Complex_Main "HOL-Library.Multiset"
begin

section \<open>Conventions of the embedding\<close>

text \<open>
  The development follows three Python modules of the backend: \<^verbatim>\<open>ai_service.py\<close>
  (rate limiter, single-model correction service, score extraction),
  \<^verbatim>\<open>deep_analysis.py\<close> (consensus engine) and \<^verbatim>\<open>enhanced_deep_analysis.py\<close>
  (two-phase orchestrator).

  \<^item> A Python \<^verbatim>\<open>float\<close> is the \<^typ>\<open>real\<close> it denotes. Scores and statistics are
    computed in exact arithmetic. The rate limiter adds and subtracts clock readings,
    and there the rounding of the result decides boundary cases: its floating-point
    addition and subtraction are parameters of the model (\<open>float_arith\<close>), so that
    what is proved holds for IEEE doubles as for exact arithmetic.
  \<^item> A Python \<^verbatim>\<open>str\<close> is a \<^typ>\<open>string\<close>, one \<^typ>\<open>char\<close> per code point; the
    code points covered are 0 to 255 (Latin-1), which contains every character of the
    patterns and messages of the source. A character outside the printable ASCII
    letters is written by its code point, \<open>CHR 0xC7\<close> for the capital C with cedilla.
  \<^item> A raised exception is the \<open>Inl\<close> side of a sum, a returned value the \<open>Inr\<close> side.
  \<^item> A leading underscore of a Python name is dropped (\<^verbatim>\<open>_extract_score\<close> is
    \<open>extract_score\<close>), since an Isabelle name starts with a letter. Fields of the same
    name in different classes get a prefix (\<open>p1_\<close>, \<open>p2_\<close>, \<open>r_\<close>, \<open>e_\<close>).
  \<^item> What the program reads from outside (the clock, the external model API, the prompt
    templates, the MD5 digest) is an argument of the model or a field of an environment
    record; what it mutates (the limiter's table, the cache, the availability flags) is a
    state record that the model returns updated. Logging is left out.
  \<^item> \<^verbatim>\<open>asyncio.sleep\<close> between retries only delays; the timer that makes a model
    available again after 300 seconds is not part of one call and is left out.
\<close>

datatype py_exception =
    AIServiceError string
  | RateLimitExceededError "real option"
  | AIServiceUnavailableError string
  | StatisticsError
  | ValueError

text \<open>
  \<^verbatim>\<open>RateLimitExceededError\<close> and \<^verbatim>\<open>AIServiceUnavailableError\<close> are subclasses of
  \<^verbatim>\<open>AIServiceError\<close>: a handler for \<^verbatim>\<open>AIServiceError\<close> catches the three of them.
\<close>

fun is_AIServiceError :: "py_exception \<Rightarrow> bool" where
  "is_AIServiceError (AIServiceError _) = True"
| "is_AIServiceError (RateLimitExceededError _) = True"
| "is_AIServiceError (AIServiceUnavailableError _) = True"
| "is_AIServiceError _ = False"

section \<open>Strings\<close>

text \<open>
  \<open>lower_code\<close> is the code point of the lower-case form of a character: the capital
  letters of ASCII and of Latin-1 (0xC0 to 0xDE without the multiplication sign) lie 32
  below their small forms. Two characters are equal under \<^verbatim>\<open>re.IGNORECASE\<close> when
  their lower-case forms are.
\<close>

definition lower_code :: "char \<Rightarrow> nat" where
  "lower_code c =
     (let n = of_char c
      in if (65 \<le> n \<and> n \<le> 90) \<or> (192 \<le> n \<and> n \<le> 222 \<and> n \<noteq> 215)
         then n + 32 else n)"

text \<open>The white space of \<^verbatim>\<open>str.strip\<close>, \<^verbatim>\<open>str.isspace\<close> and the pattern \<^verbatim>\<open>\s\<close>.\<close>

definition is_space :: "char \<Rightarrow> bool" where
  "is_space c = ((of_char c :: nat) \<in> {9, 10, 11, 12, 13, 28, 29, 30, 31, 32, 133, 160})"

definition is_digit :: "char \<Rightarrow> bool" where
  "is_digit c = (48 \<le> (of_char c :: nat) \<and> (of_char c :: nat) \<le> 57)"

definition strip :: "string \<Rightarrow> string" where
  "strip s = rev (dropWhile is_space (rev (dropWhile is_space s)))"

text \<open>\<^verbatim>\<open>not s or not s.strip()\<close>: the test for an empty or blank string.\<close>

definition blank :: "string \<Rightarrow> bool" where
  "blank s = (s = [] \<or> strip s = [])"

text \<open>\<^verbatim>\<open>float\<close> of a run of decimal digits.\<close>

definition float_of_digits :: "string \<Rightarrow> real" where
  "float_of_digits ds = foldl (\<lambda>acc c. 10 * acc + real (of_char c - 48)) 0 ds"

text \<open>\<^verbatim>\<open>str\<close> of an integer, as an f-string prints it.\<close>

fun digits_of :: "nat \<Rightarrow> nat \<Rightarrow> string" where
  "digits_of 0 n = []"
| "digits_of (Suc fuel) n =
     (if n < 10 then [''0123456789'' ! n]
      else digits_of fuel (n div 10) @ [''0123456789'' ! (n mod 10)])"

definition str_int :: "int \<Rightarrow> string" where
  "str_int i = (if i < 0 then ''-'' @ digits_of (Suc (nat (- i))) (nat (- i))
                else digits_of (Suc (nat i)) (nat i))"

text \<open>\<^verbatim>\<open>str.upper\<close> on the ASCII letters, all that the model keys contain.\<close>

definition upper :: "string \<Rightarrow> string" where
  "upper s =
     map (\<lambda>c. case map_of (zip ''abcdefghijklmnopqrstuvwxyz'' ''ABCDEFGHIJKLMNOPQRSTUVWXYZ'') c of
                 Some u \<Rightarrow> u | None \<Rightarrow> c) s"

subsection \<open>The regular expressions of the source\<close>

text \<open>
  The patterns of the source are sequences of four kinds of items: a literal text
  (matched ignoring case), \<^verbatim>\<open>\s*\<close>, a group \<^verbatim>\<open>(\d+)\<close>, and the group
  \<^verbatim>\<open>(Insuficiente|Regular|Bom|Muito Bom|Excelente)\<close>. In every pattern the item after a
  repetition cannot start with a character of the repeated class, and no alternative of
  the group is a prefix of another: the leftmost match is found without backtracking.
  A match is the list of its groups and the text left after it.
\<close>

datatype re_item = Literal string | Whitespace | Digits | Alternatives "string list"

fun match_literal :: "string \<Rightarrow> string \<Rightarrow> string option" where
  "match_literal [] text = Some text"
| "match_literal (p # ps) [] = None"
| "match_literal (p # ps) (c # cs) =
     (if lower_code p = lower_code c then match_literal ps cs else None)"

fun match_alternatives :: "string list \<Rightarrow> string \<Rightarrow> (string \<times> string) option" where
  "match_alternatives [] text = None"
| "match_alternatives (a # alts) text =
     (case match_literal a text of
        Some rest \<Rightarrow> Some (take (length a) text, rest)
      | None \<Rightarrow> match_alternatives alts text)"

fun match_here :: "re_item list \<Rightarrow> string \<Rightarrow> string list \<Rightarrow> (string list \<times> string) option" where
  "match_here [] text groups = Some (groups, text)"
| "match_here (Literal l # items) text groups =
     (case match_literal l text of
        None \<Rightarrow> None
      | Some rest \<Rightarrow> match_here items rest groups)"
| "match_here (Whitespace # items) text groups =
     match_here items (dropWhile is_space text) groups"
| "match_here (Digits # items) text groups =
     (if takeWhile is_digit text = [] then None
      else match_here items (dropWhile is_digit text) (groups @ [takeWhile is_digit text]))"
| "match_here (Alternatives alts # items) text groups =
     (case match_alternatives alts text of
        None \<Rightarrow> None
      | Some (g, rest) \<Rightarrow> match_here items rest (groups @ [g]))"

text \<open>\<^verbatim>\<open>re.search\<close>: the groups of the leftmost match.\<close>

fun re_search :: "re_item list \<Rightarrow> string \<Rightarrow> string list option" where
  "re_search items [] = map_option fst (match_here items [] [])"
| "re_search items (c # cs) =
     (case match_here items (c # cs) [] of
        Some (groups, rest) \<Rightarrow> Some groups
      | None \<Rightarrow> re_search items cs)"

text \<open>
  \<^verbatim>\<open>re.findall\<close> for a pattern with one group: the group of every match, from left to
  right, the search resuming where the previous match ended. \<open>skip\<close> counts the
  characters of the previous match that are still to be passed over.
\<close>

fun re_findall_from :: "re_item list \<Rightarrow> string \<Rightarrow> nat \<Rightarrow> string list" where
  "re_findall_from items [] skip =
     (if skip = 0 then (case match_here items [] [] of Some (groups, rest) \<Rightarrow> [hd groups] | None \<Rightarrow> [])
      else [])"
| "re_findall_from items (c # cs) skip =
     (if skip > 0 then re_findall_from items cs (skip - 1)
      else (case match_here items (c # cs) [] of
              Some (groups, rest) \<Rightarrow>
                hd groups # re_findall_from items cs (length (c # cs) - length rest - 1)
            | None \<Rightarrow> re_findall_from items cs 0))"

definition re_findall :: "re_item list \<Rightarrow> string \<Rightarrow> string list" where
  "re_findall items text = re_findall_from items text 0"

section \<open>Rate limiter\<close>

record RateLimitConfig =
  requests_per_minute :: int
  burst_limit :: int
  window_size :: int

text \<open>
  The floating-point addition and subtraction of the platform, each giving the
  representable number the exact result is rounded to. The comparison of two floats is
  exact and needs no parameter.
\<close>

record float_arith =
  fl_add :: "real \<Rightarrow> real \<Rightarrow> real"
  fl_sub :: "real \<Rightarrow> real \<Rightarrow> real"

text \<open>Python's \<^verbatim>\<open>min\<close> of a list raises \<^verbatim>\<open>ValueError\<close> on the empty list.\<close>

fun py_min :: "real list \<Rightarrow> py_exception + real" where
  "py_min [] = Inl ValueError"
| "py_min (x # xs) = Inr (fold min xs x)"

text \<open>
  \<^verbatim>\<open>RateLimiter.is_allowed\<close>. The dictionary \<^verbatim>\<open>self.requests\<close> is a map from keys to
  the list of recorded timestamps; the reading of the clock is the argument \<open>now\<close>, the
  arithmetic on floats the argument \<open>ar\<close>. The function returns the outcome together
  with the dictionary it leaves behind. The whole body runs under the limiter's lock, so
  it is one atomic step.
\<close>

definition is_allowed ::
  "float_arith \<Rightarrow> RateLimitConfig \<Rightarrow> (string \<rightharpoonup> real list) \<Rightarrow> string \<Rightarrow> real
     \<Rightarrow> (py_exception + bool \<times> real option) \<times> (string \<rightharpoonup> real list)" where
  "is_allowed ar config requests user_id now =
     (let window_start = fl_sub ar now (real_of_int (window_size config));
          requests1 = (if user_id \<notin> dom requests then requests(user_id \<mapsto> []) else requests);
          kept = filter (\<lambda>req_time. req_time > window_start)
                   (case requests1 user_id of None \<Rightarrow> [] | Some ts \<Rightarrow> ts);
          requests2 = requests1(user_id \<mapsto> kept)
      in if int (length kept) < requests_per_minute config
         then (Inr (True, None), requests2(user_id \<mapsto> kept @ [now]))
         else (case py_min kept of
                 Inl e \<Rightarrow> (Inl e, requests2)
               | Inr oldest_request \<Rightarrow>
                   (let wait_time =
                          fl_sub ar (fl_add ar oldest_request (real_of_int (window_size config)))
                            now
                    in (Inr (False, Some (max 0 wait_time)), requests2))))"

section \<open>Score extraction\<close>

text \<open>
  The three patterns that \<^verbatim>\<open>_extract_score\<close> searches in paragraph mode, the four of
  full mode, and the dictionary \<^verbatim>\<open>quality_scores\<close>.
\<close>

definition quality_labels :: "string list" where
  "quality_labels = [''Insuficiente'', ''Regular'', ''Bom'', ''Muito Bom'', ''Excelente'']"

definition paragraph_patterns :: "re_item list list" where
  "paragraph_patterns =
     [[Literal (''AVALIA'' @ [CHR 0xC7, CHR 0xC3] @ ''O GERAL:''), Whitespace,
       Alternatives quality_labels],
      [Literal (''AVALIA'' @ [CHR 0xC7, CHR 0xC3] @ ''O:''), Whitespace,
       Alternatives quality_labels],
      [Literal ''GERAL:'', Whitespace, Alternatives quality_labels]]"

definition individual_pattern :: "re_item list" where
  "individual_pattern =
     [Literal (''AVALIA'' @ [CHR 0xC7, CHR 0xC3] @ ''O:''), Whitespace,
      Alternatives quality_labels]"

definition full_patterns :: "re_item list list" where
  "full_patterns =
     [[Literal ''NOTA FINAL:'', Whitespace, Digits, Literal ''/1000''],
      [Literal ''NOTA FINAL:'', Whitespace, Digits, Whitespace, Literal ''/'', Whitespace,
       Literal ''1000''],
      [Literal ''TOTAL:'', Whitespace, Digits, Literal ''/1000''],
      [Digits, Literal ''/1000'']]"

definition quality_scores :: "(string \<times> real) list" where
  "quality_scores =
     [(''Insuficiente'', 200), (''Regular'', 400), (''Bom'', 600), (''Muito Bom'', 800),
      (''Excelente'', 1000)]"

text \<open>\<^verbatim>\<open>quality_scores.get(quality, 400)\<close>: the lookup is exact, also in the case of letters.\<close>

definition quality_score :: "string \<Rightarrow> real" where
  "quality_score quality = (case map_of quality_scores quality of Some v \<Rightarrow> v | None \<Rightarrow> 400)"

text \<open>
  The loop \<^verbatim>\<open>for pattern in patterns: match = re.search(...); if match: return ...\<close>:
  the first group of the first pattern that matches.
\<close>

fun first_match :: "re_item list list \<Rightarrow> string \<Rightarrow> string option" where
  "first_match [] text = None"
| "first_match (pattern # patterns) text =
     (case re_search pattern text of
        Some groups \<Rightarrow> Some (hd groups)
      | None \<Rightarrow> first_match patterns text)"

text \<open>
  \<^verbatim>\<open>_extract_score\<close>. Nothing inside its \<^verbatim>\<open>try\<close> block raises on a string, so the
  handler that returns \<^verbatim>\<open>None\<close> is never entered.
\<close>

definition extract_score :: "string \<Rightarrow> string \<Rightarrow> real option" where
  "extract_score feedback analysis_type =
     (if feedback = [] then None
      else if analysis_type = ''paragraph'' then
        (case first_match paragraph_patterns feedback of
           Some quality \<Rightarrow> Some (quality_score quality)
         | None \<Rightarrow>
             (let individual_assessments = re_findall individual_pattern feedback
              in if individual_assessments \<noteq> []
                 then Some (sum_list (map quality_score individual_assessments)
                            / real (length individual_assessments))
                 else Some 400))
      else
        (case first_match full_patterns feedback of
           Some digits \<Rightarrow> Some (float_of_digits digits)
         | None \<Rightarrow> None))"

section \<open>Single-model correction service\<close>

record RetryConfig =
  max_retries :: nat
  base_delay :: real
  max_delay :: real
  exponential_base :: real

record AIServiceConfig =
  rate_limit :: RateLimitConfig
  retry :: RetryConfig
  cache_ttl :: nat
  fallback_enabled :: bool

text \<open>
  The dictionary that \<^verbatim>\<open>correct_essay\<close> returns. The canned response has no
  \<^verbatim>\<open>model\<close>, \<^verbatim>\<open>analysis_type\<close> and \<^verbatim>\<open>processing_time\<close> entries; only a result of a
  fallback model has a \<^verbatim>\<open>fallback_reason\<close>.
\<close>

record correction =
  r_feedback :: string
  r_score :: "real option"
  r_model :: "string option"
  r_analysis_type :: "string option"
  r_processing_time :: "real option"
  r_is_fallback :: bool
  r_fallback_reason :: "string option"
  r_timestamp :: string

text \<open>
  The state of the service: the limiter's table, the registry \<^verbatim>\<open>ai_models\<close> (its keys
  in insertion order, each with its \<^verbatim>\<open>available\<close> flag), the result cache, and the
  requests sent to the external API so far (model key and prompt), which the model
  records to make the invocations observable.
\<close>

record service_state =
  s_requests :: "string \<rightharpoonup> real list"
  s_ai_models :: "(string \<times> bool) list"
  s_cache :: "string \<rightharpoonup> correction"
  s_api_calls :: "(string \<times> string) list"

text \<open>
  What the service reads from outside: the answer of the external API to its n-th
  request (an error text or the content of the completion), the prompt of the template
  collaborator (with its embedded fallback), the MD5 digest, the two clock readings
  that fill \<^verbatim>\<open>processing_time\<close> and \<^verbatim>\<open>timestamp\<close>, and the floating-point
  arithmetic of the limiter.
\<close>

record environment =
  chat_completion :: "nat \<Rightarrow> string \<Rightarrow> string \<Rightarrow> string + string"
  get_optimized_prompt :: "string \<Rightarrow> string \<Rightarrow> string \<Rightarrow> string"
  md5_hexdigest :: "string \<Rightarrow> string"
  elapsed :: real
  utcnow :: string
  float_ops :: float_arith

definition set_unavailable :: "string \<Rightarrow> (string \<times> bool) list \<Rightarrow> (string \<times> bool) list" where
  "set_unavailable model_key models =
     map (\<lambda>(k, available). if k = model_key then (k, False) else (k, available)) models"

text \<open>
  \<^verbatim>\<open>_call_ai_model\<close>: an unknown key raises \<^verbatim>\<open>AIServiceError\<close>, an unavailable model
  \<^verbatim>\<open>AIServiceUnavailableError\<close>; any failure of the request marks the model
  unavailable and is raised again as \<^verbatim>\<open>AIServiceUnavailableError\<close>.
\<close>

definition call_ai_model ::
  "environment \<Rightarrow> service_state \<Rightarrow> string \<Rightarrow> string
     \<Rightarrow> (py_exception + string) \<times> service_state" where
  "call_ai_model env st model_key prompt =
     (case map_of (s_ai_models st) model_key of
        None \<Rightarrow> (Inl (AIServiceError (''Model '' @ model_key @ '' not available'')), st)
      | Some available \<Rightarrow>
          if \<not> available
          then (Inl (AIServiceUnavailableError
                       (''Model '' @ model_key @ '' is currently unavailable'')), st)
          else
            (let st1 = st\<lparr>s_api_calls := s_api_calls st @ [(model_key, prompt)]\<rparr>
             in case chat_completion env (length (s_api_calls st)) model_key prompt of
                  Inr content \<Rightarrow> (Inr content, st1)
                | Inl msg \<Rightarrow>
                    (Inl (AIServiceUnavailableError
                            (''Model '' @ model_key @ '' temporarily unavailable: '' @ msg)),
                     st1\<lparr>s_ai_models := set_unavailable model_key (s_ai_models st1)\<rparr>)))"

text \<open>
  \<^verbatim>\<open>_retry_with_backoff\<close> around \<^verbatim>\<open>_call_ai_model\<close>: \<^verbatim>\<open>max_retries + 1\<close> attempts,
  the first success returned, the last exception raised. The second argument is the
  number of retries left.
\<close>

fun retry_with_backoff ::
  "environment \<Rightarrow> nat \<Rightarrow> service_state \<Rightarrow> string \<Rightarrow> string
     \<Rightarrow> (py_exception + string) \<times> service_state" where
  "retry_with_backoff env 0 st model_key prompt = call_ai_model env st model_key prompt"
| "retry_with_backoff env (Suc retries_left) st model_key prompt =
     (case call_ai_model env st model_key prompt of
        (Inr content, st1) \<Rightarrow> (Inr content, st1)
      | (Inl e, st1) \<Rightarrow> retry_with_backoff env retries_left st1 model_key prompt)"

definition generate_cache_key ::
  "environment \<Rightarrow> string \<Rightarrow> string \<Rightarrow> string \<Rightarrow> string \<Rightarrow> string" where
  "generate_cache_key env content theme model_name analysis_type =
     ''ai:result:'' @ model_name @ '':'' @ md5_hexdigest env (content @ theme @ analysis_type)"

text \<open>The two canned texts of \<^verbatim>\<open>_get_fallback_response\<close>, with the theme filled in.\<close>

definition fallback_feedback_paragraph :: "string \<Rightarrow> string" where
  "fallback_feedback_paragraph theme =
    (''**AN'' @ [CHR 0xC1] @ ''LISE INDISPON'' @ [CHR 0xCD] @ ''VEL**''
     @ [CHR 0x0A, CHR 0x0A] @ ''O servi'' @ [CHR 0xE7] @ ''o de corre''
     @ [CHR 0xE7, CHR 0xE3] @ ''o est'' @ [CHR 0xE1] @ '' temporariamente indispon''
     @ [CHR 0xED] @ ''vel. '' @ [CHR 0x0A, CHR 0x0A] @ ''**DICAS GERAIS PARA O TEMA ''
     @ [CHR 0x22] @ theme @ [CHR 0x22] @ '':**'' @ [CHR 0x0A]
     @ ''- Desenvolva uma tese clara na introdu'' @ [CHR 0xE7, CHR 0xE3] @ ''o''
     @ [CHR 0x0A] @ ''- Use argumentos consistentes e bem fundamentados'' @ [CHR 0x0A]
     @ ''- Conecte ideias com conectivos apropriados'' @ [CHR 0x0A]
     @ ''- Proponha interven'' @ [CHR 0xE7, CHR 0xE3] @ ''o espec'' @ [CHR 0xED]
     @ ''fica e detalhada'' @ [CHR 0x0A] @ ''- Revise gram'' @ [CHR 0xE1]
     @ ''tica e ortografia'' @ [CHR 0x0A, CHR 0x0A] @ ''**NOTA:** An'' @ [CHR 0xE1]
     @ ''lise n'' @ [CHR 0xE3] @ ''o dispon'' @ [CHR 0xED] @ ''vel'' @ [CHR 0x0A]
     @ ''**STATUS:** Tente novamente em alguns minutos'')"

definition fallback_feedback_full :: "string \<Rightarrow> string" where
  "fallback_feedback_full theme =
    (''**SERVI'' @ [CHR 0xC7] @ ''O TEMPORARIAMENTE INDISPON'' @ [CHR 0xCD] @ ''VEL**''
     @ [CHR 0x0A, CHR 0x0A] @ ''A corre'' @ [CHR 0xE7, CHR 0xE3] @ ''o autom'' @ [CHR 0xE1]
     @ ''tica est'' @ [CHR 0xE1] @ '' em manuten'' @ [CHR 0xE7, CHR 0xE3] @ ''o. Aqui est''
     @ [CHR 0xE3] @ ''o dicas gerais para o tema '' @ [CHR 0x22] @ theme @ [CHR 0x22]
     @ '':'' @ [CHR 0x0A, CHR 0x0A] @ ''**ESTRUTURA RECOMENDADA:**'' @ [CHR 0x0A]
     @ ''1. **Introdu'' @ [CHR 0xE7, CHR 0xE3]
     @ ''o:** Contextualize o tema e apresente sua tese'' @ [CHR 0x0A]
     @ ''2. **Desenvolvimento:** 2 par'' @ [CHR 0xE1]
     @ ''grafos com argumentos distintos e bem fundamentados'' @ [CHR 0x0A]
     @ ''3. **Conclus'' @ [CHR 0xE3] @ ''o:** Retome a tese e proponha interven''
     @ [CHR 0xE7, CHR 0xE3] @ ''o detalhada'' @ [CHR 0x0A, CHR 0x0A] @ ''**CRIT''
     @ [CHR 0xC9] @ ''RIOS ENEM:**'' @ [CHR 0x0A] @ ''- **Norma Culta:** Revise gram''
     @ [CHR 0xE1] @ ''tica, ortografia e concord'' @ [CHR 0xE2] @ ''ncia'' @ [CHR 0x0A]
     @ ''- **Tema:** Mantenha-se dentro do tema proposto'' @ [CHR 0x0A] @ ''- **Argumenta''
     @ [CHR 0xE7, CHR 0xE3] @ ''o:** Use dados, exemplos e refer'' @ [CHR 0xEA] @ ''ncias''
     @ [CHR 0x0A] @ ''- **Coes'' @ [CHR 0xE3]
     @ ''o:** Conecte ideias com conectivos adequados'' @ [CHR 0x0A]
     @ ''- **Proposta:** Seja espec'' @ [CHR 0xED] @ ''fico (agente, a''
     @ [CHR 0xE7, CHR 0xE3] @ ''o, meio, finalidade)'' @ [CHR 0x0A, CHR 0x0A]
     @ ''**NOTA:** An'' @ [CHR 0xE1] @ ''lise detalhada indispon'' @ [CHR 0xED] @ ''vel''
     @ [CHR 0x0A] @ ''**STATUS:** Tente novamente em alguns minutos'')"

definition get_fallback_response ::
  "environment \<Rightarrow> AIServiceConfig \<Rightarrow> string \<Rightarrow> string \<Rightarrow> py_exception + correction" where
  "get_fallback_response env config theme analysis_type =
     (if \<not> fallback_enabled config
      then Inl (AIServiceUnavailableError ''AI services unavailable and fallback disabled'')
      else Inr \<lparr>r_feedback = (if analysis_type = ''paragraph''
                               then fallback_feedback_paragraph theme
                               else fallback_feedback_full theme),
                 r_score = None, r_model = None, r_analysis_type = None,
                 r_processing_time = None, r_is_fallback = True, r_fallback_reason = None,
                 r_timestamp = utcnow env\<rparr>)"

text \<open>
  The loop over the fallback models: the first that answers gives the result, which is
  cached; any exception of a fallback model is swallowed and the next one is tried.
\<close>

fun try_fallback_models ::
  "environment \<Rightarrow> AIServiceConfig \<Rightarrow> string \<Rightarrow> string \<Rightarrow> string \<Rightarrow> string
     \<Rightarrow> string list \<Rightarrow> service_state \<Rightarrow> correction option \<times> service_state" where
  "try_fallback_models env config prompt analysis_type cache_key model_key [] st = (None, st)"
| "try_fallback_models env config prompt analysis_type cache_key model_key
       (fallback_model # fallback_models) st =
     (case retry_with_backoff env (max_retries (retry config)) st fallback_model prompt of
        (Inr content, st1) \<Rightarrow>
          (let result =
                 \<lparr>r_feedback = content, r_score = extract_score content analysis_type,
                  r_model = Some fallback_model, r_analysis_type = Some analysis_type,
                  r_processing_time = Some (elapsed env), r_is_fallback = True,
                  r_fallback_reason = Some (''Primary model '' @ model_key @ '' failed''),
                  r_timestamp = utcnow env\<rparr>
           in (Some result, st1\<lparr>s_cache := (s_cache st1)(cache_key \<mapsto> result)\<rparr>))
      | (Inl fallback_error, st1) \<Rightarrow>
          try_fallback_models env config prompt analysis_type cache_key model_key
            fallback_models st1)"

text \<open>
  The rate-limit check of \<^verbatim>\<open>correct_essay\<close>: skipped for a missing or empty
  \<^verbatim>\<open>user_id\<close>; a denial raises \<^verbatim>\<open>RateLimitExceededError\<close> with the wait time.
\<close>

definition check_rate_limiting ::
  "environment \<Rightarrow> AIServiceConfig \<Rightarrow> service_state \<Rightarrow> string option \<Rightarrow> real
     \<Rightarrow> (py_exception + unit) \<times> service_state" where
  "check_rate_limiting env config st user_id now =
     (case user_id of
        None \<Rightarrow> (Inr (), st)
      | Some uid \<Rightarrow>
          if uid = [] then (Inr (), st)
          else (case is_allowed (float_ops env) (rate_limit config) (s_requests st) uid
                        now of
                  (Inl e, table) \<Rightarrow> (Inl e, st\<lparr>s_requests := table\<rparr>)
                | (Inr (allowed, wait_time), table) \<Rightarrow>
                    if \<not> allowed
                    then (Inl (RateLimitExceededError wait_time), st\<lparr>s_requests := table\<rparr>)
                    else (Inr (), st\<lparr>s_requests := table\<rparr>)))"

text \<open>
  \<^verbatim>\<open>correct_essay\<close>. The parameter \<open>model_key\<close> is assigned in both branches of the
  first statement, before its first use. The parameters \<^verbatim>\<open>theme_data\<close> and
  \<^verbatim>\<open>metadata\<close> only reach the template collaborator and are part of
  \<open>get_optimized_prompt\<close>.
\<close>

definition correct_essay ::
  "environment \<Rightarrow> AIServiceConfig \<Rightarrow> service_state \<Rightarrow> real \<Rightarrow> string \<Rightarrow> string \<Rightarrow> string
     \<Rightarrow> string option \<Rightarrow> string \<Rightarrow> (py_exception + correction) \<times> service_state" where
  "correct_essay env config st now content theme model_key user_id analysis_type =
     (let model_key = (if analysis_type = ''paragraph'' then ''deepseek_14b'' else ''llama_253b'')
      in if analysis_type = ''paragraph'' \<and> length content > 2000
         then (Inl (AIServiceError ''Paragraph content too long (max 2,000 characters)''), st)
         else if analysis_type \<noteq> ''paragraph'' \<and> length content > 10000
         then (Inl (AIServiceError ''Essay content too long (max 10,000 characters)''), st)
         else if blank content
         then (Inl (AIServiceError ''Essay content cannot be empty''), st)
         else
          (case check_rate_limiting env config st user_id now of
             (Inl e, st1) \<Rightarrow> (Inl e, st1)
           | (Inr _, st1) \<Rightarrow>
               (let cache_key = generate_cache_key env content theme model_key analysis_type
                in case s_cache st1 cache_key of
                     Some cached_result \<Rightarrow> (Inr cached_result, st1)
                   | None \<Rightarrow>
                      (let prompt = get_optimized_prompt env content theme analysis_type
                       in case retry_with_backoff env (max_retries (retry config)) st1
                                 model_key prompt of
                            (Inr content', st2) \<Rightarrow>
                              (let result =
                                     \<lparr>r_feedback = content',
                                      r_score = extract_score content' analysis_type,
                                      r_model = Some model_key,
                                      r_analysis_type = Some analysis_type,
                                      r_processing_time = Some (elapsed env),
                                      r_is_fallback = False, r_fallback_reason = None,
                                      r_timestamp = utcnow env\<rparr>
                               in (Inr result,
                                   st2\<lparr>s_cache := (s_cache st2)(cache_key \<mapsto> result)\<rparr>))
                          | (Inl e, st2) \<Rightarrow>
                              if \<not> is_AIServiceError e then (Inl e, st2)
                              else
                               (case try_fallback_models env config prompt analysis_type
                                       cache_key model_key
                                       (filter (\<lambda>m. m \<noteq> model_key) (map fst (s_ai_models st2)))
                                       st2 of
                                  (Some result, st3) \<Rightarrow> (Inr result, st3)
                                | (None, st3) \<Rightarrow>
                                    (get_fallback_response env config theme analysis_type,
                                     st3))))))"

section \<open>Consensus engine\<close>

datatype AnalysisReliability = VERY_HIGH | HIGH | MEDIUM | LOW | VERY_LOW

record ModelResult =
  model :: string
  feedback :: string
  score :: "real option"
  processing_time :: real
  timestamp :: string
  error :: "string option"
  success :: bool

record ConsensusMetrics =
  score_variance :: real
  score_std_dev :: real
  agreement_percentage :: real
  reliability_level :: AnalysisReliability
  outlier_models :: "string list"
  consensus_score :: "real option"

text \<open>The entries of \<^verbatim>\<open>DeepAnalysisService.config\<close> that the consensus engine reads.\<close>

definition outlier_threshold :: real where
  "outlier_threshold = 2"

definition min_models_for_consensus :: nat where
  "min_models_for_consensus = 2"

text \<open>
  The functions of Python's \<^verbatim>\<open>statistics\<close> module that the engine calls:
  \<^verbatim>\<open>mean\<close> and \<^verbatim>\<open>median\<close> raise \<^verbatim>\<open>StatisticsError\<close> on empty data, \<^verbatim>\<open>variance\<close> and
  \<^verbatim>\<open>stdev\<close> (the sample variance and its square root) on fewer than two values.
\<close>

definition statistics_mean :: "real list \<Rightarrow> py_exception + real" where
  "statistics_mean data =
     (if data = [] then Inl StatisticsError
      else Inr (sum_list data / real (length data)))"

definition statistics_variance :: "real list \<Rightarrow> py_exception + real" where
  "statistics_variance data =
     (if length data < 2 then Inl StatisticsError
      else (let xbar = sum_list data / real (length data)
            in Inr (sum_list (map (\<lambda>x. (x - xbar)\<^sup>2) data) / real (length data - 1))))"

definition statistics_stdev :: "real list \<Rightarrow> py_exception + real" where
  "statistics_stdev data =
     (case statistics_variance data of Inl e \<Rightarrow> Inl e | Inr v \<Rightarrow> Inr (sqrt v))"

definition statistics_median :: "real list \<Rightarrow> py_exception + real" where
  "statistics_median data =
     (let sorted_data = sort data; n = length sorted_data
      in if n = 0 then Inl StatisticsError
         else if n mod 2 = 1 then Inr (sorted_data ! (n div 2))
         else (let i = n div 2 in Inr ((sorted_data ! (i - 1) + sorted_data ! i) / 2)))"

text \<open>
  \<^verbatim>\<open>_calculate_consensus_metrics\<close>, statement by statement. \<open>the (score r)\<close> is only
  read on results that passed the filter \<open>score r \<noteq> None\<close>.
\<close>

definition qualifies :: "ModelResult \<Rightarrow> bool" where
  "qualifies r = (success r \<and> score r \<noteq> None)"

definition calculate_consensus_metrics :: "ModelResult list \<Rightarrow> py_exception + ConsensusMetrics" where
  "calculate_consensus_metrics model_results =
     (let successful_results = filter qualifies model_results
      in if length successful_results < min_models_for_consensus
         then Inr \<lparr>score_variance = 0, score_std_dev = 0, agreement_percentage = 0,
                   reliability_level = VERY_LOW, outlier_models = [], consensus_score = None\<rparr>
         else
          (let scores = map (\<lambda>r. the (score r)) successful_results
           in case statistics_mean scores of Inl e \<Rightarrow> Inl e | Inr mean_score \<Rightarrow>
              (case (if length scores > 1 then statistics_variance scores else Inr 0) of
                 Inl e \<Rightarrow> Inl e | Inr variance \<Rightarrow>
              (case (if length scores > 1 then statistics_stdev scores else Inr 0) of
                 Inl e \<Rightarrow> Inl e | Inr std_dev \<Rightarrow>
              (let outliers =
                     (if std_dev > 0
                      then map model
                             (filter (\<lambda>result. \<bar>the (score result) - mean_score\<bar> / std_dev
                                                > outlier_threshold) successful_results)
                      else []);
                   agreement =
                     (if mean_score > 0 then max 0 ((1 - std_dev / mean_score) * 100) else 0);
                   level =
                     (if agreement \<ge> 90 then VERY_HIGH
                      else if agreement \<ge> 75 then HIGH
                      else if agreement \<ge> 60 then MEDIUM
                      else if agreement \<ge> 40 then LOW
                      else VERY_LOW);
                   non_outlier_scores =
                     map (\<lambda>r. the (score r))
                       (filter (\<lambda>r. model r \<notin> set outliers) successful_results)
               in case (if non_outlier_scores \<noteq> [] then statistics_median non_outlier_scores
                        else Inr mean_score) of
                    Inl e \<Rightarrow> Inl e
                  | Inr consensus \<Rightarrow>
                      Inr \<lparr>score_variance = variance, score_std_dev = std_dev,
                           agreement_percentage = agreement, reliability_level = level,
                           outlier_models = outliers, consensus_score = Some consensus\<rparr>)))))"

section \<open>Two-phase orchestrator: data model\<close>

record Phase1ModelResult =
  p1_model :: string
  p1_feedback :: string
  p1_score :: "real option"
  p1_processing_time :: real
  p1_timestamp :: string
  p1_error :: "string option"
  p1_success :: bool
  raw_output :: string

record Phase1Results =
  kimi_result :: "Phase1ModelResult option"
  qwen_result :: "Phase1ModelResult option"
  deepseek_result :: "Phase1ModelResult option"
  phase1_processing_time :: real
  successful_models :: int

text \<open>
  \<^verbatim>\<open>_calculate_reliability_level\<close>: the success rate is the count divided by the float
  \<^verbatim>\<open>3.0\<close>, compared with the literals \<^verbatim>\<open>1.0\<close>, \<^verbatim>\<open>0.67\<close> and \<^verbatim>\<open>0.33\<close> in this order.
\<close>

definition calculate_reliability_level :: "Phase1Results \<Rightarrow> string" where
  "calculate_reliability_level phase1_results =
     (let success_rate = real_of_int (successful_models phase1_results) / 3
      in if success_rate \<ge> 1 then ''very_high''
         else if success_rate \<ge> 67 / 100 then ''high''
         else if success_rate \<ge> 33 / 100 then ''medium''
         else ''very_low'')"

record Phase2Result =
  p2_consolidated_feedback :: string
  p2_final_score :: "real option"
  p2_reliability_level :: string
  p2_processing_time :: real
  p2_timestamp :: string
  p2_error :: "string option"
  p2_success :: bool

record EnhancedDeepAnalysisResult =
  e_content_hash :: string
  e_theme :: string
  e_analysis_type :: string
  e_exam_type :: string
  e_phase1_results :: Phase1Results
  e_phase2_result :: Phase2Result
  e_total_processing_time :: real
  e_timestamp :: string
  e_cache_key :: string

text \<open>
  The outcome of \<^verbatim>\<open>await asyncio.wait_for(self.ai_service.correct_essay(...), timeout)\<close>:
  the dictionary returned, a timeout, or another exception with its text.
\<close>

datatype call_outcome = Returned correction | TimedOut | Raised string

text \<open>
  What the orchestrator reads from outside: the outcome of each awaited call of the
  correction service (by model key, content, theme and analysis type), the exam type
  detected for a theme, the MD5 digest, the clock readings, named by the place that
  reads them, and the floating-point arithmetic of the limiter. Its state: the limiter's table, its cache, and the calls of the correction
  service issued so far (model key and analysis type).
\<close>

record orchestrator_environment =
  awaited_correct_essay :: "string \<Rightarrow> string \<Rightarrow> string \<Rightarrow> string \<Rightarrow> call_outcome"
  detect_exam_type :: "string \<Rightarrow> string"
  md5_of :: "string \<Rightarrow> string"
  time_since_start :: "string \<Rightarrow> real"
  utcnow_isoformat :: "string \<Rightarrow> string"
  limiter_float_ops :: float_arith

record orchestrator_state =
  limiter_table :: "string \<rightharpoonup> real list"
  enhanced_cache :: "string \<rightharpoonup> EnhancedDeepAnalysisResult"
  service_calls :: "(string \<times> string) list"

text \<open>The entries of \<^verbatim>\<open>EnhancedDeepAnalysisService.config\<close> and the synthesis model.\<close>

definition phase1_timeout_per_model :: int where
  "phase1_timeout_per_model = 120"

definition phase2_timeout :: int where
  "phase2_timeout = 180"

definition min_successful_models :: int where
  "min_successful_models = 1"

definition phase2_model :: string where
  "phase2_model = ''llama_49b''"

text \<open>
  \<^verbatim>\<open>_analyze_with_phase1_model\<close>: every exception of the awaited call becomes a failed
  result without score. (The prompt it computes first is not passed on.)
\<close>

definition analyze_with_phase1_model ::
  "orchestrator_environment \<Rightarrow> orchestrator_state \<Rightarrow> string \<Rightarrow> string \<Rightarrow> string \<Rightarrow> string
     \<Rightarrow> Phase1ModelResult \<times> orchestrator_state" where
  "analyze_with_phase1_model env st model_key content theme analysis_type =
     (let st1 = st\<lparr>service_calls := service_calls st @ [(model_key, analysis_type)]\<rparr>
      in case awaited_correct_essay env model_key content theme analysis_type of
           Returned result \<Rightarrow>
             (\<lparr>p1_model = model_key, p1_feedback = r_feedback result,
               p1_score = r_score result,
               p1_processing_time = time_since_start env model_key,
               p1_timestamp = utcnow_isoformat env model_key, p1_error = None,
               p1_success = True, raw_output = r_feedback result\<rparr>, st1)
         | TimedOut \<Rightarrow>
             (\<lparr>p1_model = model_key, p1_feedback = [], p1_score = None,
               p1_processing_time = time_since_start env model_key,
               p1_timestamp = utcnow_isoformat env model_key,
               p1_error = Some (''Phase 1 model '' @ model_key @ '' timed out after ''
                                @ str_int phase1_timeout_per_model @ ''s''),
               p1_success = False, raw_output = []\<rparr>, st1)
         | Raised msg \<Rightarrow>
             (\<lparr>p1_model = model_key, p1_feedback = [], p1_score = None,
               p1_processing_time = time_since_start env model_key,
               p1_timestamp = utcnow_isoformat env model_key,
               p1_error = Some (''Phase 1 model '' @ model_key @ '' failed: '' @ msg),
               p1_success = False, raw_output = []\<rparr>, st1))"

text \<open>
  \<^verbatim>\<open>_run_phase1_analysis\<close>: the three primary models, all awaited; each task returns a
  \<^verbatim>\<open>Phase1ModelResult\<close>, so the three results are present; the successful ones are
  counted.
\<close>

definition count_successful :: "Phase1ModelResult option list \<Rightarrow> int" where
  "count_successful results =
     int (length (filter (\<lambda>result. case result of None \<Rightarrow> False | Some r \<Rightarrow> p1_success r)
                    results))"

definition run_phase1_analysis ::
  "orchestrator_environment \<Rightarrow> orchestrator_state \<Rightarrow> string \<Rightarrow> string \<Rightarrow> string
     \<Rightarrow> Phase1Results \<times> orchestrator_state" where
  "run_phase1_analysis env st content theme analysis_type =
     (let (kimi, st1) = analyze_with_phase1_model env st ''kimi_k2'' content theme analysis_type;
          (qwen, st2) = analyze_with_phase1_model env st1 ''qwen3_235b'' content theme analysis_type;
          (deepseek, st3) =
             analyze_with_phase1_model env st2 ''deepseek_r1'' content theme analysis_type
      in (\<lparr>kimi_result = Some kimi, qwen_result = Some qwen, deepseek_result = Some deepseek,
           phase1_processing_time = time_since_start env ''phase1'',
           successful_models = count_successful [Some kimi, Some qwen, Some deepseek]\<rparr>,
          st3))"

text \<open>\<^verbatim>\<open>Phase1Results.get_raw_outputs_for_synthesis\<close>, a dictionary in insertion order.\<close>

definition get_raw_outputs_for_synthesis :: "Phase1Results \<Rightarrow> (string \<times> string) list" where
  "get_raw_outputs_for_synthesis p =
     (case kimi_result p of
        Some r \<Rightarrow> if p1_success r then [(''kimi_k2'', raw_output r)] else []
      | None \<Rightarrow> [])
     @ (case qwen_result p of
          Some r \<Rightarrow> if p1_success r then [(''qwen3_235b'', raw_output r)] else []
        | None \<Rightarrow> [])
     @ (case deepseek_result p of
          Some r \<Rightarrow> if p1_success r then [(''deepseek_r1'', raw_output r)] else []
        | None \<Rightarrow> [])"

text \<open>\<^verbatim>\<open>_create_synthesis_prompt\<close>: the analyses in order, then the template.\<close>

definition model_analysis_text :: "string \<Rightarrow> string \<Rightarrow> string" where
  "model_analysis_text model_name output =
    ([CHR 0x0A, CHR 0x0A] @ ''**AN'' @ [CHR 0xC1] @ ''LISE DO MODELO '' @ upper model_name
     @ '':**'' @ [CHR 0x0A] @ output)"

definition synthesis_template :: "string \<Rightarrow> string \<Rightarrow> string \<Rightarrow> string \<Rightarrow> string" where
  "synthesis_template content theme exam_type model_analyses_text =
    (''Voc'' @ [CHR 0xEA] @ '' '' @ [CHR 0xE9] @ '' um especialista em consolidar an''
     @ [CHR 0xE1] @ ''lises de reda'' @ [CHR 0xE7, CHR 0xF5] @ ''es realizadas por m''
     @ [CHR 0xFA] @ ''ltiplos avaliadores.'' @ [CHR 0x0A, CHR 0x0A]
     @ ''**IMPORTANTE: RESPONDA SEMPRE EM PORTUGU'' @ [CHR 0xCA] @ ''S BRASILEIRO.**''
     @ [CHR 0x0A, CHR 0x0A] @ ''## DADOS RECEBIDOS'' @ [CHR 0x0A]
     @ ''**TEXTO ORIGINAL DA REDA'' @ [CHR 0xC7, CHR 0xC3] @ ''O:**'' @ [CHR 0x0A] @ content
     @ [CHR 0x0A, CHR 0x0A] @ ''**TEMA:** '' @ theme @ [CHR 0x0A, CHR 0x0A]
     @ ''**TIPO DE AN'' @ [CHR 0xC1] @ ''LISE:** '' @ exam_type
     @ '' (ENEM/FUVEST/PUC-RJ/UNIFESP/ITA/UNESP)'' @ [CHR 0x0A, CHR 0x0A] @ ''**AN''
     @ [CHR 0xC1] @ ''LISES DOS MODELOS:** '' @ model_analyses_text @ [CHR 0x0A, CHR 0x0A]
     @ ''## OBJETIVO'' @ [CHR 0x0A] @ ''Consolidar as an'' @ [CHR 0xE1]
     @ ''lises individuais em um feedback '' @ [CHR 0xFA] @ ''nico, identificando:''
     @ [CHR 0x0A] @ ''1. Pontos de consenso entre avaliadores'' @ [CHR 0x0A] @ ''2. Diverg''
     @ [CHR 0xEA] @ ''ncias significativas'' @ [CHR 0x0A] @ ''3. Insights complementares''
     @ [CHR 0x0A] @ ''4. Nota final mais apropriada'' @ [CHR 0x0A, CHR 0x0A]
     @ ''## PROCESSO DE CONSOLIDA'' @ [CHR 0xC7, CHR 0xC3] @ ''O'' @ [CHR 0x0A, CHR 0x0A]
     @ ''### 1. AN'' @ [CHR 0xC1] @ ''LISE DE CONSENSO'' @ [CHR 0x0A]
     @ ''- Identifique aspectos onde h'' @ [CHR 0xE1] @ '' concord'' @ [CHR 0xE2]
     @ ''ncia entre os modelos'' @ [CHR 0x0A] @ ''- Destaque avalia'' @ [CHR 0xE7, CHR 0xF5]
     @ ''es un'' @ [CHR 0xE2] @ ''nimes (positivas ou negativas)'' @ [CHR 0x0A]
     @ ''- Valorize pontos mencionados por m'' @ [CHR 0xFA] @ ''ltiplos avaliadores''
     @ [CHR 0x0A, CHR 0x0A] @ ''### 2. AN'' @ [CHR 0xC1] @ ''LISE DE DIVERG'' @ [CHR 0xCA]
     @ ''NCIAS'' @ [CHR 0x0A] @ ''- Identifique discrep'' @ [CHR 0xE2]
     @ ''ncias significativas nas notas'' @ [CHR 0x0A] @ ''- Analise diferentes interpreta''
     @ [CHR 0xE7, CHR 0xF5] @ ''es do mesmo aspecto'' @ [CHR 0x0A] @ ''- Pondere qual vis''
     @ [CHR 0xE3] @ ''o '' @ [CHR 0xE9] @ '' mais fundamentada'' @ [CHR 0x0A, CHR 0x0A]
     @ ''### 3. S'' @ [CHR 0xCD] @ ''NTESE INTEGRATIVA'' @ [CHR 0x0A]
     @ ''- Combine insights complementares'' @ [CHR 0x0A] @ ''- Elimine redund''
     @ [CHR 0xE2] @ ''ncias'' @ [CHR 0x0A] @ ''- Mantenha apenas o mais relevante e pedag''
     @ [CHR 0xF3] @ ''gico'' @ [CHR 0x0A, CHR 0x0A] @ ''### 4. NOTA FINAL'' @ [CHR 0x0A]
     @ ''- Se houver consenso: use a m'' @ [CHR 0xE9] @ ''dia'' @ [CHR 0x0A]
     @ ''- Se houver diverg'' @ [CHR 0xEA] @ ''ncia significativa (>20%): use mediana''
     @ [CHR 0x0A] @ ''- Justifique ajustes quando necess'' @ [CHR 0xE1] @ ''rio''
     @ [CHR 0x0A, CHR 0x0A] @ ''## FORMATO DE SA'' @ [CHR 0xCD] @ ''DA''
     @ [CHR 0x0A, CHR 0x0A] @ ''**AN'' @ [CHR 0xC1] @ ''LISE CONSOLIDADA - '' @ exam_type
     @ ''**'' @ [CHR 0x0A, CHR 0x0A] @ ''**Consensos Identificados**'' @ [CHR 0x0A]
     @ ''[Listar principais pontos de concord'' @ [CHR 0xE2] @ ''ncia entre avaliadores]''
     @ [CHR 0x0A, CHR 0x0A] @ ''**Diverg'' @ [CHR 0xEA] @ ''ncias Relevantes**''
     @ [CHR 0x0A] @ ''[Apenas se houver discrep'' @ [CHR 0xE2]
     @ ''ncias significativas que mere'' @ [CHR 0xE7] @ ''am aten'' @ [CHR 0xE7, CHR 0xE3]
     @ ''o]'' @ [CHR 0x0A, CHR 0x0A] @ ''**Avalia'' @ [CHR 0xE7, CHR 0xE3]
     @ ''o Final por Crit'' @ [CHR 0xE9] @ ''rio**'' @ [CHR 0x0A] @ ''[Para cada crit''
     @ [CHR 0xE9] @ ''rio da faculdade espec'' @ [CHR 0xED]
     @ ''fica, apresentar nota consolidada e justificativa breve]'' @ [CHR 0x0A, CHR 0x0A]
     @ ''**Nota Total Consolidada:** [X]/[Total]'' @ [CHR 0x0A, CHR 0x0A]
     @ ''**Pontos Fortes - S'' @ [CHR 0xED] @ ''ntese**'' @ [CHR 0x0A]
     @ ''[3 principais qualidades identificadas pela maioria dos avaliadores]''
     @ [CHR 0x0A, CHR 0x0A] @ ''**Pontos de Melhoria - S'' @ [CHR 0xED] @ ''ntese**''
     @ [CHR 0x0A]
     @ ''[3 principais aspectos a desenvolver segundo consenso dos avaliadores]''
     @ [CHR 0x0A, CHR 0x0A] @ ''**Orienta'' @ [CHR 0xE7, CHR 0xF5] @ ''es Priorit''
     @ [CHR 0xE1] @ ''rias**'' @ [CHR 0x0A] @ ''[5 sugest'' @ [CHR 0xF5]
     @ ''es mais relevantes compiladas das an'' @ [CHR 0xE1]
     @ ''lises, ordenadas por import'' @ [CHR 0xE2] @ ''ncia]'' @ [CHR 0x0A, CHR 0x0A]
     @ ''**Observa'' @ [CHR 0xE7, CHR 0xE3] @ ''o sobre a An'' @ [CHR 0xE1] @ ''lise**''
     @ [CHR 0x0A] @ ''[Se houver alguma diverg'' @ [CHR 0xEA]
     @ ''ncia muito significativa ou aspecto que mere'' @ [CHR 0xE7] @ ''a aten''
     @ [CHR 0xE7, CHR 0xE3] @ ''o especial]'')"

definition create_synthesis_prompt ::
  "string \<Rightarrow> string \<Rightarrow> string \<Rightarrow> (string \<times> string) list \<Rightarrow> string" where
  "create_synthesis_prompt content theme exam_type phase1_outputs =
     synthesis_template content theme exam_type
       (concat (map (\<lambda>(model_name, output). model_analysis_text model_name output)
                  phase1_outputs))"

text \<open>
  \<^verbatim>\<open>_extract_synthesis_score\<close>: the first of four patterns that matches gives score and
  total; the score is scaled to 1000. A total of zero raises \<^verbatim>\<open>ZeroDivisionError\<close>,
  which the function turns into \<^verbatim>\<open>None\<close>.
\<close>

definition synthesis_patterns :: "re_item list list" where
  "synthesis_patterns =
     [[Literal ''Nota Total Consolidada:'', Whitespace, Digits, Literal ''/'', Digits],
      [Literal ''NOTA TOTAL CONSOLIDADA:'', Whitespace, Digits, Literal ''/'', Digits],
      [Literal ''Nota Final:'', Whitespace, Digits, Literal ''/'', Digits],
      [Literal ''NOTA FINAL:'', Whitespace, Digits, Literal ''/'', Digits]]"

fun synthesis_score_from :: "re_item list list \<Rightarrow> string \<Rightarrow> real option" where
  "synthesis_score_from [] synthesis_feedback = None"
| "synthesis_score_from (pattern # patterns) synthesis_feedback =
     (case re_search pattern synthesis_feedback of
        Some groups \<Rightarrow>
          (let score_value = float_of_digits (groups ! 0);
               total = float_of_digits (groups ! 1)
           in if total \<noteq> 1000
              then (if total = 0 then None else Some ((score_value / total) * 1000))
              else Some score_value)
      | None \<Rightarrow> synthesis_score_from patterns synthesis_feedback)"

definition extract_synthesis_score :: "string \<Rightarrow> real option" where
  "extract_synthesis_score synthesis_feedback =
     synthesis_score_from synthesis_patterns synthesis_feedback"

text \<open>The canned texts of \<^verbatim>\<open>_run_phase2_synthesis\<close>.\<close>

definition insufficient_feedback :: string where
  "insufficient_feedback =
    (''**AN'' @ [CHR 0xC1] @ ''LISE PROFUNDA INDISPON'' @ [CHR 0xCD] @ ''VEL**''
     @ [CHR 0x0A, CHR 0x0A] @ ''N'' @ [CHR 0xE3] @ ''o foi poss'' @ [CHR 0xED]
     @ ''vel obter an'' @ [CHR 0xE1] @ ''lises suficientes dos modelos prim'' @ [CHR 0xE1]
     @ ''rios para realizar a s'' @ [CHR 0xED] @ ''ntese.'')"

definition timeout_feedback :: string where
  "timeout_feedback =
    (''**AN'' @ [CHR 0xC1] @ ''LISE PROFUNDA INDISPON'' @ [CHR 0xCD] @ ''VEL**''
     @ [CHR 0x0A, CHR 0x0A] @ ''O processo de s'' @ [CHR 0xED] @ ''ntese das an''
     @ [CHR 0xE1] @ ''lises excedeu o tempo limite.'')"

definition failed_feedback :: string where
  "failed_feedback =
    (''**AN'' @ [CHR 0xC1] @ ''LISE PROFUNDA INDISPON'' @ [CHR 0xCD] @ ''VEL**''
     @ [CHR 0x0A, CHR 0x0A] @ ''Ocorreu um erro durante o processo de s'' @ [CHR 0xED]
     @ ''ntese das an'' @ [CHR 0xE1] @ ''lises.'')"

definition synthesis_theme :: "string \<Rightarrow> string" where
  "synthesis_theme theme =
    (''S'' @ [CHR 0xED] @ ''ntese de an'' @ [CHR 0xE1] @ ''lises para: '' @ theme)"

text \<open>
  \<^verbatim>\<open>_run_phase2_synthesis\<close>: the guard on the number of successful Phase-1 models
  returns before the synthesis model is called.
\<close>

definition run_phase2_synthesis ::
  "orchestrator_environment \<Rightarrow> orchestrator_state \<Rightarrow> string \<Rightarrow> string \<Rightarrow> string
     \<Rightarrow> Phase1Results \<Rightarrow> Phase2Result \<times> orchestrator_state" where
  "run_phase2_synthesis env st content theme exam_type phase1 =
     (if successful_models phase1 < min_successful_models
      then (\<lparr>p2_consolidated_feedback = insufficient_feedback, p2_final_score = None,
             p2_reliability_level = ''very_low'',
             p2_processing_time = time_since_start env ''phase2'',
             p2_timestamp = utcnow_isoformat env ''phase2'',
             p2_error = Some (''Insufficient successful Phase 1 models (''
                              @ str_int (successful_models phase1) @ '') for synthesis''),
             p2_success = False\<rparr>, st)
      else
       (let phase1_outputs = get_raw_outputs_for_synthesis phase1;
            synthesis_prompt = create_synthesis_prompt content theme exam_type phase1_outputs;
            st1 = st\<lparr>service_calls := service_calls st @ [(phase2_model, ''synthesis'')]\<rparr>
        in case awaited_correct_essay env phase2_model synthesis_prompt
                  (synthesis_theme theme) ''synthesis'' of
             Returned result \<Rightarrow>
               (\<lparr>p2_consolidated_feedback = r_feedback result,
                 p2_final_score = extract_synthesis_score (r_feedback result),
                 p2_reliability_level = calculate_reliability_level phase1,
                 p2_processing_time = time_since_start env ''phase2'',
                 p2_timestamp = utcnow_isoformat env ''phase2'',
                 p2_error = None, p2_success = True\<rparr>, st1)
           | TimedOut \<Rightarrow>
               (\<lparr>p2_consolidated_feedback = timeout_feedback, p2_final_score = None,
                 p2_reliability_level = ''low'',
                 p2_processing_time = time_since_start env ''phase2'',
                 p2_timestamp = utcnow_isoformat env ''phase2'',
                 p2_error = Some (''Phase 2 synthesis timed out after ''
                                  @ str_int phase2_timeout @ ''s''),
                 p2_success = False\<rparr>, st1)
           | Raised msg \<Rightarrow>
               (\<lparr>p2_consolidated_feedback = failed_feedback, p2_final_score = None,
                 p2_reliability_level = ''very_low'',
                 p2_processing_time = time_since_start env ''phase2'',
                 p2_timestamp = utcnow_isoformat env ''phase2'',
                 p2_error = Some (''Phase 2 synthesis failed: '' @ msg),
                 p2_success = False\<rparr>, st1)))"

text \<open>
  \<^verbatim>\<open>analyze_enhanced_deep\<close>: validation, exam type, cache, rate limit under the key
  \<^verbatim>\<open>enhanced_deep_\<close> followed by the user id, Phase 1, Phase 2, the result, the cache.
  \<^verbatim>\<open>theme_data\<close> only reaches the detection of the exam type.
\<close>

definition analyze_enhanced_deep ::
  "orchestrator_environment \<Rightarrow> RateLimitConfig \<Rightarrow> orchestrator_state \<Rightarrow> real \<Rightarrow> string
     \<Rightarrow> string \<Rightarrow> string \<Rightarrow> string option
     \<Rightarrow> (py_exception + EnhancedDeepAnalysisResult) \<times> orchestrator_state" where
  "analyze_enhanced_deep env limiter_config st now content theme analysis_type user_id =
     (if blank content
      then (Inl (AIServiceError ''Content cannot be empty for enhanced deep analysis''), st)
      else if blank theme
      then (Inl (AIServiceError ''Theme cannot be empty for enhanced deep analysis''), st)
      else
       (let exam_type = detect_exam_type env theme;
            content_hash = md5_of env (content @ theme @ analysis_type @ ''enhanced'');
            cache_key = ''enhanced_deep_analysis:'' @ analysis_type @ '':'' @ content_hash
        in case enhanced_cache st cache_key of
             Some cached_result \<Rightarrow> (Inr cached_result, st)
           | None \<Rightarrow>
              (case (case user_id of
                       None \<Rightarrow> (Inr (True, None), limiter_table st)
                     | Some uid \<Rightarrow>
                         if uid = [] then (Inr (True, None), limiter_table st)
                         else is_allowed (limiter_float_ops env) limiter_config
                                (limiter_table st)
                                (''enhanced_deep_'' @ uid) now) of
                 (Inl e, table) \<Rightarrow> (Inl e, st\<lparr>limiter_table := table\<rparr>)
               | (Inr (allowed, wait_time), table) \<Rightarrow>
                   if \<not> allowed
                   then (Inl (RateLimitExceededError wait_time), st\<lparr>limiter_table := table\<rparr>)
                   else
                    (let (phase1, st1) =
                           run_phase1_analysis env (st\<lparr>limiter_table := table\<rparr>) content
                             theme analysis_type;
                         (phase2, st2) =
                           run_phase2_synthesis env st1 content theme exam_type phase1;
                         result =
                           \<lparr>e_content_hash = content_hash, e_theme = theme,
                            e_analysis_type = analysis_type, e_exam_type = exam_type,
                            e_phase1_results = phase1, e_phase2_result = phase2,
                            e_total_processing_time = time_since_start env ''total'',
                            e_timestamp = utcnow_isoformat env ''total'',
                            e_cache_key = cache_key\<rparr>
                     in (Inr result,
                         st2\<lparr>enhanced_cache := (enhanced_cache st2)(cache_key \<mapsto> result)\<rparr>)))))"

section \<open>Notions used in the statements\<close>

subsection \<open>Consensus engine\<close>









text \<open>Example inputs: a successful result with a score, and two result lists.\<close>

definition scored :: "string \<Rightarrow> real \<Rightarrow> ModelResult" where
  "scored m s = \<lparr>model = m, feedback = ''ok'', score = Some s, processing_time = 1,
                 timestamp = ''2024-01-01T10:00:00'', error = None, success = True\<rparr>"



subsection \<open>Rate limiter\<close>

text \<open>
  The check as the specification words it, on the timestamps recorded for one key: prune
  the timestamps older than \<open>now - window_size\<close>; below \<open>max_requests\<close>, record \<open>now\<close>
  and allow; otherwise deny with the time until the oldest remaining timestamp leaves
  the window.
\<close>

definition spec_check ::
  "RateLimitConfig \<Rightarrow> real list \<Rightarrow> real \<Rightarrow> (bool \<times> real option) \<times> real list" where
  "spec_check config recorded now =
     (let window = real_of_int (window_size config);
          remaining = filter (\<lambda>t. \<not> t < now - window) recorded
      in if int (length remaining) < requests_per_minute config
         then ((True, None), remaining @ [now])
         else ((False, Some (Min (set remaining) + window - now)), remaining))"

text \<open>
  Exact arithmetic as an instance of the floating-point operations; and the statement
  that the rounding errors of one addition and one subtraction on given operands are at
  most \<open>eps\<close>.
\<close>

definition exact_arith :: float_arith where
  "exact_arith = \<lparr>fl_add = (\<lambda>x y. x + y), fl_sub = (\<lambda>x y. x - y)\<rparr>"

definition rounds_within :: "float_arith \<Rightarrow> real \<Rightarrow> real \<Rightarrow> real \<Rightarrow> bool" where
  "rounds_within ar eps x y =
     (\<bar>fl_add ar x y - (x + y)\<bar> \<le> eps \<and> \<bar>fl_sub ar x y - (x - y)\<bar> \<le> eps)"

text \<open>The timestamps recorded for a key, none when the key is not in the table.\<close>

definition recorded :: "(string \<rightharpoonup> real list) \<Rightarrow> string \<Rightarrow> real list" where
  "recorded requests user_id = (case requests user_id of None \<Rightarrow> [] | Some ts \<Rightarrow> ts)"

text \<open>The default \<^verbatim>\<open>RateLimitConfig\<close>: one request per window of 60 seconds.\<close>

definition one_per_minute :: RateLimitConfig where
  "one_per_minute = \<lparr>requests_per_minute = 1, burst_limit = 1, window_size = 60\<rparr>"

subsection \<open>Score extraction\<close>

text \<open>
  A feedback text contains a qualitative assessment marker when one of the patterns of
  paragraph mode matches somewhere in it.
\<close>

definition has_quality_marker :: "string \<Rightarrow> bool" where
  "has_quality_marker fb =
     list_ex (\<lambda>pattern. re_search pattern fb \<noteq> None) paragraph_patterns"

subsection \<open>Single-model correction service\<close>

text \<open>
  The registry as \<^verbatim>\<open>AIService.__init__\<close> builds it from \<^verbatim>\<open>AI_MODELS\<close>, every model
  available; the default configuration; the state of a fresh service.
\<close>

definition AI_MODELS :: "string list" where
  "AI_MODELS =
     [''deepseek_14b'', ''llama_253b'', ''deepseek_r1'', ''kimi_k2'', ''qwen3_235b'', ''llama_49b'']"

definition default_config :: AIServiceConfig where
  "default_config =
     \<lparr>rate_limit = one_per_minute,
      retry = \<lparr>max_retries = 3, base_delay = 1, max_delay = 60, exponential_base = 2\<rparr>,
      cache_ttl = 86400, fallback_enabled = True\<rparr>"

definition fresh_service :: service_state where
  "fresh_service =
     \<lparr>s_requests = Map.empty, s_ai_models = map (\<lambda>k. (k, True)) AI_MODELS,
      s_cache = Map.empty, s_api_calls = []\<rparr>"

text \<open>
  Every invocation of a model fails in a state: each model of the registry that is
  flagged available has all its requests to the external API fail. (A model that is not
  registered or not available fails without a request.)
\<close>

definition every_invocation_fails :: "environment \<Rightarrow> service_state \<Rightarrow> bool" where
  "every_invocation_fails env st =
     (\<forall>k. (k, True) \<in> set (s_ai_models st)
          \<longrightarrow> (\<forall>n prompt. isl (chat_completion env n k prompt)))"

text \<open>An environment whose API times out on every request.\<close>

definition unreachable_api :: environment where
  "unreachable_api =
     \<lparr>chat_completion = (\<lambda>n model_key prompt. Inl ''Request timed out.''),
      get_optimized_prompt = (\<lambda>content theme analysis_type. theme @ '': '' @ content),
      md5_hexdigest = (\<lambda>s. s), elapsed = 7, utcnow = ''2024-01-01T10:00:00'',
      float_ops = exact_arith\<rparr>"

text \<open>
  The call reaches the models: the content passes validation, the limiter admits the
  caller, and the cache holds no result under the key of the call.
\<close>

definition reaches_models ::
  "environment \<Rightarrow> AIServiceConfig \<Rightarrow> service_state \<Rightarrow> real \<Rightarrow> string \<Rightarrow> string
     \<Rightarrow> string option \<Rightarrow> string \<Rightarrow> bool" where
  "reaches_models env config st now content theme user_id analysis_type =
     (length content \<le> (if analysis_type = ''paragraph'' then 2000 else 10000)
      \<and> \<not> blank content
      \<and> fst (check_rate_limiting env config st user_id now) = Inr ()
      \<and> s_cache st
           (generate_cache_key env content theme
              (if analysis_type = ''paragraph'' then ''deepseek_14b'' else ''llama_253b'')
              analysis_type) = None)"

subsection \<open>Two-phase orchestrator\<close>

text \<open>
  None of the three primary models succeeds: each awaited call of Phase 1 times out or
  raises.
\<close>

definition phase1_all_fail ::
  "orchestrator_environment \<Rightarrow> string \<Rightarrow> string \<Rightarrow> string \<Rightarrow> bool" where
  "phase1_all_fail env content theme analysis_type =
     list_all (\<lambda>model_key. case awaited_correct_essay env model_key content theme analysis_type of
                              Returned result \<Rightarrow> False | TimedOut \<Rightarrow> True | Raised msg \<Rightarrow> True)
       [''kimi_k2'', ''qwen3_235b'', ''deepseek_r1'']"

text \<open>
  The run reaches Phase 1: content and theme are not blank, the cache has no result for
  them, and the limiter admits the caller (no user id, or the check allows).
\<close>

definition reaches_phase1 ::
  "orchestrator_environment \<Rightarrow> RateLimitConfig \<Rightarrow> orchestrator_state \<Rightarrow> real \<Rightarrow> string
     \<Rightarrow> string \<Rightarrow> string \<Rightarrow> string option \<Rightarrow> bool" where
  "reaches_phase1 env limiter_config st now content theme analysis_type user_id =
     (\<not> blank content \<and> \<not> blank theme
      \<and> enhanced_cache st
           (''enhanced_deep_analysis:'' @ analysis_type @ '':''
            @ md5_of env (content @ theme @ analysis_type @ ''enhanced'')) = None
      \<and> (case user_id of
            None \<Rightarrow> True
          | Some uid \<Rightarrow>
              uid = [] \<or> map_sum id fst (fst (is_allowed (limiter_float_ops env) limiter_config
                                               (limiter_table st)
                                               (''enhanced_deep_'' @ uid) now)) = Inr True))"

text \<open>An environment in which every awaited call of the correction service times out.\<close>

definition all_calls_time_out :: orchestrator_environment where
  "all_calls_time_out =
     \<lparr>awaited_correct_essay = (\<lambda>model_key content theme analysis_type. TimedOut),
      detect_exam_type = (\<lambda>theme. ''ENEM''), md5_of = (\<lambda>s. s),
      time_since_start = (\<lambda>place. 120), utcnow_isoformat = (\<lambda>place. ''2024-01-01T10:02:00''),
      limiter_float_ops = exact_arith\<rparr>"

definition fresh_orchestrator :: orchestrator_state where
  "fresh_orchestrator =
     \<lparr>limiter_table = Map.empty, enhanced_cache = Map.empty, service_calls = []\<rparr>"

subsection \<open>Outliers, result by result\<close>






section \<open>Reliability label of the two-phase run\<close>

text \<open>
  C1. The label is meant to follow the number of successful Phase-1 models: 3 gives
  very_high, 2 gives high, 1 gives medium, 0 gives very_low. The branch the source
  comments as "2 out of 3 models successful" tests the rate against 0.67, and 2/3 is
  below 0.67: with two successful models the function answers medium, the same label as
  with one. The other three counts give the labels of the claim.
\<close>

theorem calculate_reliability_level_two_of_three:
  "calculate_reliability_level (p\<lparr>successful_models := 2\<rparr>) = ''medium''
   \<and> calculate_reliability_level (p\<lparr>successful_models := 3\<rparr>) = ''very_high''
   \<and> calculate_reliability_level (p\<lparr>successful_models := 1\<rparr>) = ''medium''
   \<and> calculate_reliability_level (p\<lparr>successful_models := 0\<rparr>) = ''very_low''"
  by (simp add: calculate_reliability_level_def)

section \<open>Score extraction: the default of paragraph mode\<close>

lemma re_findall_from_no_match:
  "re_search items s = None \<Longrightarrow> re_findall_from items s skip = []"
proof (induction s arbitrary: skip)
  case Nil
  then show ?case by (auto split: option.splits)
next
  case (Cons c cs)
  then show ?case by (auto split: option.splits)
qed

lemma first_match_None:
  "first_match patterns s = None \<longleftrightarrow> (\<forall>p \<in> set patterns. re_search p s = None)"
  by (induction patterns) (auto split: option.splits)

lemma no_marker_first_match:
  "\<not> has_quality_marker fb \<Longrightarrow> first_match paragraph_patterns fb = None"
  by (simp add: has_quality_marker_def first_match_None list_ex_iff)

lemma no_marker_findall:
  assumes "\<not> has_quality_marker fb"
  shows "re_findall individual_pattern fb = []"
proof -
  have "individual_pattern \<in> set paragraph_patterns"
    by (simp add: individual_pattern_def paragraph_patterns_def)
  with assms have "re_search individual_pattern fb = None"
    by (auto simp add: has_quality_marker_def list_ex_iff)
  then show ?thesis
    by (simp add: re_findall_def re_findall_from_no_match)
qed

text \<open>
  C2, as amended. For every non-empty feedback text without a qualitative assessment
  marker, score extraction in paragraph mode returns 400, the numeric equivalent of
  Regular, the second label of the scale; for the empty text it returns no score.
\<close>

theorem extract_score_paragraph_default:
  "(fb \<noteq> [] \<and> \<not> has_quality_marker fb \<longrightarrow>
      extract_score fb ''paragraph'' = Some 400
      \<and> map_of quality_scores ''Regular'' = Some 400)
   \<and> extract_score [] ''paragraph'' = None"
  by (simp add: extract_score_def no_marker_first_match no_marker_findall
      quality_scores_def)

theorem extract_score_paragraph_default_witness:
  "''Feedback sem nota'' \<noteq> [] \<and> \<not> has_quality_marker ''Feedback sem nota''
   \<and> extract_score ''Feedback sem nota'' ''paragraph'' = Some 400"
proof -
  have h: "\<not> has_quality_marker ''Feedback sem nota''"
    by (simp add: has_quality_marker_def paragraph_patterns_def lower_code_def)
  show ?thesis
    using h extract_score_paragraph_default [of "''Feedback sem nota''"] by simp
qed

text \<open>
  C2, as stated, fails: the mid-point label of the five-point scale is Bom, worth 600;
  a text without marker is scored 400.
\<close>

theorem extract_score_midpoint_counterexample:
  "\<not> has_quality_marker ''Texto sem nota''
   \<and> quality_labels ! (length quality_labels div 2) = ''Bom''
   \<and> map_of quality_scores ''Bom'' = Some 600
   \<and> extract_score ''Texto sem nota'' ''paragraph'' = Some 400
   \<and> extract_score ''Texto sem nota'' ''paragraph'' \<noteq> map_of quality_scores ''Bom''"
proof -
  have h: "\<not> has_quality_marker ''Texto sem nota''"
    by (simp add: has_quality_marker_def paragraph_patterns_def lower_code_def)
  have e: "extract_score ''Texto sem nota'' ''paragraph'' = Some 400"
    by (simp add: extract_score_def no_marker_first_match [OF h] no_marker_findall [OF h])
  show ?thesis
    using h e by (simp add: quality_scores_def quality_labels_def)
qed

text \<open>
  The extraction on texts that do carry a marker: the label is looked up as written, so
  a label in other letter case than the dictionary's is scored 400 as well.
\<close>

lemma extract_score_examples:
  "extract_score (''AVALIA'' @ [CHR 0xC7, CHR 0xC3] @ ''O GERAL: Muito Bom'') ''paragraph'' = Some 800"
  "extract_score (''avalia'' @ [CHR 0xE7, CHR 0xE3] @ ''o geral: excelente'') ''paragraph'' = Some 400"
  "extract_score ''NOTA FINAL: 760/1000'' ''full'' = Some 760"
  "extract_score ''This is feedback without any score'' ''full'' = None"
  by (simp_all add: extract_score_def paragraph_patterns_def full_patterns_def
      quality_labels_def quality_score_def quality_scores_def lower_code_def is_space_def
      is_digit_def float_of_digits_def)

section \<open>Consensus engine: what the computation returns\<close>







lemma calculate_consensus_metrics_few:
  assumes "length (filter qualifies rs) < 2"
  shows "calculate_consensus_metrics rs =
     Inr \<lparr>score_variance = 0, score_std_dev = 0, agreement_percentage = 0,
          reliability_level = VERY_LOW, outlier_models = [], consensus_score = None\<rparr>"
  using assms by (simp add: calculate_consensus_metrics_def min_models_for_consensus_def)











text \<open>The example inputs, evaluated.\<close>

lemma qualifies_scored [simp]: "qualifies (scored m s)"
  by (simp add: qualifies_def scored_def)

lemma score_scored [simp]: "score (scored m s) = Some s"
  by (simp add: scored_def)

lemma model_scored [simp]: "model (scored m s) = m"
  by (simp add: scored_def)























text \<open>
  C5. With fewer than two results that are successful and carry a score, the computation
  returns (it does not raise) zero variance, zero standard deviation, zero agreement,
  the lowest reliability level, no outliers and no consensus score.
\<close>

theorem consensus_below_minimum:
  assumes "length (filter qualifies model_results) < 2"
  shows "calculate_consensus_metrics model_results =
     Inr \<lparr>score_variance = 0, score_std_dev = 0, agreement_percentage = 0,
          reliability_level = VERY_LOW, outlier_models = [], consensus_score = None\<rparr>"
  using assms by (rule calculate_consensus_metrics_few)

theorem consensus_below_minimum_witness:
  "length (filter qualifies [scored ''llama'' 850,
       (scored ''deepseek'' 700)\<lparr>success := False, score := None\<rparr>]) < 2
   \<and> calculate_consensus_metrics [scored ''llama'' 850,
       (scored ''deepseek'' 700)\<lparr>success := False, score := None\<rparr>] =
     Inr \<lparr>score_variance = 0, score_std_dev = 0, agreement_percentage = 0,
          reliability_level = VERY_LOW, outlier_models = [], consensus_score = None\<rparr>"
proof -
  have h: "length (filter qualifies [scored ''llama'' 850,
       (scored ''deepseek'' 700)\<lparr>success := False, score := None\<rparr>]) < 2"
    by (simp add: qualifies_def scored_def)
  show ?thesis
    using h consensus_below_minimum [OF h] by simp
qed




section \<open>Correction service: total failure of the models\<close>

lemma set_unavailable_subset:
  "(k, True) \<in> set (set_unavailable model_key models) \<Longrightarrow> (k, True) \<in> set models"
  by (auto simp add: set_unavailable_def split: if_splits)

lemma call_ai_model_fails:
  assumes "every_invocation_fails env st"
  shows "\<exists>e st'. call_ai_model env st model_key prompt = (Inl e, st') \<and> is_AIServiceError e
           \<and> s_cache st' = s_cache st \<and> every_invocation_fails env st'"
proof (cases "map_of (s_ai_models st) model_key")
  case None
  with assms show ?thesis
    by (simp add: call_ai_model_def)
next
  case (Some available)
  show ?thesis
  proof (cases available)
    case False
    with Some assms show ?thesis
      by (simp add: call_ai_model_def)
  next
    case True
    with Some have "(model_key, True) \<in> set (s_ai_models st)"
      by (simp add: map_of_SomeD)
    with assms have "isl (chat_completion env (length (s_api_calls st)) model_key prompt)"
      by (simp add: every_invocation_fails_def)
    then obtain msg
      where m: "chat_completion env (length (s_api_calls st)) model_key prompt = Inl msg"
      by (auto simp add: isl_def)
    have "every_invocation_fails env
            (st\<lparr>s_api_calls := s_api_calls st @ [(model_key, prompt)],
                s_ai_models := set_unavailable model_key (s_ai_models st)\<rparr>)"
      using assms by (auto simp add: every_invocation_fails_def dest: set_unavailable_subset)
    with Some True m show ?thesis
      by (simp add: call_ai_model_def Let_def)
  qed
qed

lemma retry_with_backoff_fails:
  assumes "every_invocation_fails env st"
  shows "\<exists>e st'. retry_with_backoff env n st model_key prompt = (Inl e, st')
           \<and> is_AIServiceError e \<and> s_cache st' = s_cache st
           \<and> every_invocation_fails env st'"
  using assms
proof (induction n arbitrary: st)
  case 0
  then show ?case
    using call_ai_model_fails [of env st model_key prompt] by simp
next
  case (Suc n)
  from call_ai_model_fails [OF Suc.prems, of model_key prompt] obtain e st1
    where c: "call_ai_model env st model_key prompt = (Inl e, st1)"
      and s: "s_cache st1 = s_cache st"
      and i: "every_invocation_fails env st1"
    by blast
  from Suc.IH [OF i] s show ?case
    by (simp add: c)
qed

lemma try_fallback_models_fails:
  assumes "every_invocation_fails env st"
  shows "fst (try_fallback_models env config prompt analysis_type cache_key model_key ms st) = None"
  using assms
proof (induction ms arbitrary: st)
  case Nil
  show ?case by simp
next
  case (Cons m ms)
  from retry_with_backoff_fails [OF Cons.prems, of "max_retries (retry config)" m prompt]
  obtain e st1
    where "retry_with_backoff env (max_retries (retry config)) st m prompt = (Inl e, st1)"
      and "every_invocation_fails env st1"
    by blast
  with Cons.IH [of st1] show ?case by simp
qed

lemma correct_essay_all_fail:
  assumes "every_invocation_fails env st"
    and "reaches_models env config st now content theme user_id analysis_type"
  shows "fst (correct_essay env config st now content theme model_key user_id analysis_type)
         = get_fallback_response env config theme analysis_type"
proof -
  define primary where
    "primary = (if analysis_type = ''paragraph'' then ''deepseek_14b'' else ''llama_253b'')"
  obtain st1 where g: "check_rate_limiting env config st user_id now = (Inr (), st1)"
    using assms(2) unfolding reaches_models_def
    by (metis prod.collapse)
  have c1: "s_cache st1 = s_cache st" and m1: "s_ai_models st1 = s_ai_models st"
    using g by (auto simp add: check_rate_limiting_def split: option.splits if_splits
        sum.splits prod.splits)
  have i1: "every_invocation_fails env st1"
    using assms(1) m1 by (simp add: every_invocation_fails_def)
  have miss: "s_cache st1 (generate_cache_key env content theme primary analysis_type) = None"
    using assms(2) c1 unfolding reaches_models_def primary_def by simp
  obtain e st2 where r: "retry_with_backoff env (max_retries (retry config)) st1 primary
        (get_optimized_prompt env content theme analysis_type) = (Inl e, st2)"
      and ai: "is_AIServiceError e" and i2: "every_invocation_fails env st2"
    using retry_with_backoff_fails [OF i1] by blast
  obtain st3 where f: "try_fallback_models env config
        (get_optimized_prompt env content theme analysis_type) analysis_type
        (generate_cache_key env content theme primary analysis_type) primary
        (filter (\<lambda>m. m \<noteq> primary) (map fst (s_ai_models st2))) st2 = (None, st3)"
    using try_fallback_models_fails [OF i2] by (metis prod.collapse)
  have v: "\<not> (analysis_type = ''paragraph'' \<and> length content > 2000)"
      "\<not> (analysis_type \<noteq> ''paragraph'' \<and> length content > 10000)" "\<not> blank content"
    using assms(2) unfolding reaches_models_def by (auto split: if_splits)
  show ?thesis
    unfolding correct_essay_def Let_def primary_def [symmetric]
    using v by (auto simp add: g miss r ai f)
qed

text \<open>
  C8, as amended. When the call reaches the models and every model invocation fails
  (the primary model and every fallback model: each is unregistered, flagged
  unavailable, or has its requests to the external API fail), a service whose
  configuration enables the fallback response does not raise: it returns the canned
  response, with score null, \<^verbatim>\<open>is_fallback\<close> true, and the text that names the
  service as unavailable.
\<close>

theorem correct_essay_service_unavailable:
  assumes "every_invocation_fails env st"
    and "reaches_models env config st now content theme user_id analysis_type"
    and "fallback_enabled config"
  shows "\<exists>result. fst (correct_essay env config st now content theme model_key user_id
                         analysis_type) = Inr result
           \<and> r_score result = None \<and> r_is_fallback result
           \<and> r_feedback result = (if analysis_type = ''paragraph''
                                   then fallback_feedback_paragraph theme
                                   else fallback_feedback_full theme)"
  using assms(3)
  by (simp add: correct_essay_all_fail [OF assms(1,2)] get_fallback_response_def)

lemma reaches_models_example:
  "reaches_models unreachable_api config fresh_service 0 ''Texto da reda'' ''Tema'' None ''full''"
  by (simp add: reaches_models_def blank_def strip_def is_space_def check_rate_limiting_def
      fresh_service_def)

lemma every_invocation_fails_example: "every_invocation_fails unreachable_api fresh_service"
  by (simp add: every_invocation_fails_def unreachable_api_def)

theorem correct_essay_service_unavailable_witness:
  "every_invocation_fails unreachable_api fresh_service
   \<and> reaches_models unreachable_api default_config fresh_service 0 ''Texto da reda'' ''Tema''
       None ''full''
   \<and> fallback_enabled default_config
   \<and> (\<exists>result. fst (correct_essay unreachable_api default_config fresh_service 0
                      ''Texto da reda'' ''Tema'' ''deepseek'' None ''full'') = Inr result
          \<and> r_score result = None \<and> r_is_fallback result
          \<and> r_feedback result = fallback_feedback_full ''Tema'')"
proof -
  have e: "fallback_enabled default_config"
    by (simp add: default_config_def)
  show ?thesis
    using correct_essay_service_unavailable
      [OF every_invocation_fails_example reaches_models_example e, of "''deepseek''"]
      every_invocation_fails_example reaches_models_example [of default_config] e
    by simp
qed

text \<open>
  C8, as stated, fails: with \<^verbatim>\<open>fallback_enabled\<close> false in the configuration, the same
  call raises \<^verbatim>\<open>AIServiceUnavailableError\<close>.
\<close>

theorem correct_essay_fallback_disabled_counterexample:
  "every_invocation_fails unreachable_api fresh_service
   \<and> reaches_models unreachable_api (default_config\<lparr>fallback_enabled := False\<rparr>)
       fresh_service 0 ''Texto da reda'' ''Tema'' None ''full''
   \<and> fst (correct_essay unreachable_api (default_config\<lparr>fallback_enabled := False\<rparr>)
            fresh_service 0 ''Texto da reda'' ''Tema'' ''deepseek'' None ''full'')
       = Inl (AIServiceUnavailableError ''AI services unavailable and fallback disabled'')"
  by (simp add: correct_essay_all_fail [OF every_invocation_fails_example reaches_models_example]
      every_invocation_fails_example reaches_models_example get_fallback_response_def)

section \<open>Correction service: the model key of the caller\<close>


section \<open>Two-phase orchestrator: no successful primary model\<close>

lemma analyze_with_phase1_model_failed:
  assumes "case awaited_correct_essay env model_key content theme analysis_type of
             Returned result \<Rightarrow> False | TimedOut \<Rightarrow> True | Raised msg \<Rightarrow> True"
  shows "\<exists>r. analyze_with_phase1_model env st model_key content theme analysis_type
              = (r, st\<lparr>service_calls := service_calls st @ [(model_key, analysis_type)]\<rparr>)
             \<and> \<not> p1_success r \<and> p1_score r = None"
  using assms
  by (cases "awaited_correct_essay env model_key content theme analysis_type")
    (simp_all add: analyze_with_phase1_model_def Let_def)

lemma run_phase1_analysis_all_fail:
  assumes "phase1_all_fail env content theme analysis_type"
  shows "\<exists>p. run_phase1_analysis env st content theme analysis_type
              = (p, st\<lparr>service_calls := service_calls st @
                          [(''kimi_k2'', analysis_type), (''qwen3_235b'', analysis_type),
                           (''deepseek_r1'', analysis_type)]\<rparr>)
             \<and> successful_models p = 0"
proof -
  let ?s1 = "st\<lparr>service_calls := service_calls st @ [(''kimi_k2'', analysis_type)]\<rparr>"
  let ?s2 = "st\<lparr>service_calls := service_calls st @
                 [(''kimi_k2'', analysis_type), (''qwen3_235b'', analysis_type)]\<rparr>"
  let ?s3 = "st\<lparr>service_calls := service_calls st @
                 [(''kimi_k2'', analysis_type), (''qwen3_235b'', analysis_type),
                  (''deepseek_r1'', analysis_type)]\<rparr>"
  have "\<exists>k. analyze_with_phase1_model env st ''kimi_k2'' content theme analysis_type = (k, ?s1)
            \<and> \<not> p1_success k"
    using assms
      analyze_with_phase1_model_failed [of env "''kimi_k2''" content theme analysis_type st]
    by (auto simp add: phase1_all_fail_def)
  then obtain k where
    k: "analyze_with_phase1_model env st ''kimi_k2'' content theme analysis_type = (k, ?s1)"
      "\<not> p1_success k"
    by blast
  have "\<exists>q. analyze_with_phase1_model env ?s1 ''qwen3_235b'' content theme analysis_type
              = (q, ?s2) \<and> \<not> p1_success q"
    using assms
      analyze_with_phase1_model_failed [of env "''qwen3_235b''" content theme analysis_type ?s1]
    by (auto simp add: phase1_all_fail_def)
  then obtain q where
    q: "analyze_with_phase1_model env ?s1 ''qwen3_235b'' content theme analysis_type = (q, ?s2)"
      "\<not> p1_success q"
    by blast
  have "\<exists>d. analyze_with_phase1_model env ?s2 ''deepseek_r1'' content theme analysis_type
              = (d, ?s3) \<and> \<not> p1_success d"
    using assms
      analyze_with_phase1_model_failed [of env "''deepseek_r1''" content theme analysis_type ?s2]
    by (auto simp add: phase1_all_fail_def)
  then obtain d where
    d: "analyze_with_phase1_model env ?s2 ''deepseek_r1'' content theme analysis_type = (d, ?s3)"
      "\<not> p1_success d"
    by blast
  show ?thesis
    by (simp add: run_phase1_analysis_def Let_def count_successful_def k q d)
qed

lemma run_phase2_synthesis_guard:
  assumes "successful_models p = 0"
  shows "run_phase2_synthesis env st content theme exam_type p =
     (\<lparr>p2_consolidated_feedback = insufficient_feedback, p2_final_score = None,
       p2_reliability_level = ''very_low'',
       p2_processing_time = time_since_start env ''phase2'',
       p2_timestamp = utcnow_isoformat env ''phase2'',
       p2_error = Some ''Insufficient successful Phase 1 models (0) for synthesis'',
       p2_success = False\<rparr>, st)"
  using assms
  by (simp add: run_phase2_synthesis_def min_successful_models_def str_int_def)

text \<open>
  C7. When the run reaches Phase 1 and none of the three primary models succeeds, the
  enhanced analysis returns a result (it does not raise); its Phase-2 part has
  \<^verbatim>\<open>success\<close> false, reliability level very_low, no final score and the message that
  the analyses were insufficient; and the only calls of the correction service issued
  are the three of Phase 1: the synthesis model is never called.
\<close>

theorem analyze_enhanced_deep_degraded:
  assumes "reaches_phase1 env limiter_config st now content theme analysis_type user_id"
    and "phase1_all_fail env content theme analysis_type"
  shows "\<exists>result st'.
           analyze_enhanced_deep env limiter_config st now content theme analysis_type user_id
             = (Inr result, st')
           \<and> \<not> p2_success (e_phase2_result result)
           \<and> p2_reliability_level (e_phase2_result result) = ''very_low''
           \<and> p2_final_score (e_phase2_result result) = None
           \<and> p2_consolidated_feedback (e_phase2_result result) = insufficient_feedback
           \<and> p2_error (e_phase2_result result)
               = Some ''Insufficient successful Phase 1 models (0) for synthesis''
           \<and> successful_models (e_phase1_results result) = 0
           \<and> service_calls st' = service_calls st @
                 [(''kimi_k2'', analysis_type), (''qwen3_235b'', analysis_type),
                  (''deepseek_r1'', analysis_type)]
           \<and> (phase2_model, ''synthesis'') \<notin> set (drop (length (service_calls st))
                                                      (service_calls st'))"
proof -
  define table where
    "table = (case user_id of
                None \<Rightarrow> limiter_table st
              | Some uid \<Rightarrow>
                  if uid = [] then limiter_table st
                  else snd (is_allowed (limiter_float_ops env) limiter_config (limiter_table st)
                              (''enhanced_deep_'' @ uid) now))"
  define st0 where "st0 = st\<lparr>limiter_table := table\<rparr>"
  have admitted: "\<exists>w. (case user_id of
                 None \<Rightarrow> (Inr (True, None), limiter_table st)
               | Some uid \<Rightarrow>
                   if uid = [] then (Inr (True, None), limiter_table st)
                   else is_allowed (limiter_float_ops env) limiter_config (limiter_table st)
                          (''enhanced_deep_'' @ uid) now) = (Inr (True, w), table)"
  proof (cases user_id)
    case None
    then show ?thesis by (simp add: table_def)
  next
    case (Some uid)
    show ?thesis
    proof (cases "uid = []")
      case True
      with Some show ?thesis by (simp add: table_def)
    next
      case False
      with Some assms(1) have
        "map_sum id fst (fst (is_allowed (limiter_float_ops env) limiter_config (limiter_table st)
                               (''enhanced_deep_'' @ uid) now)) = Inr True"
        by (simp add: reaches_phase1_def)
      then obtain w tb where
        "is_allowed (limiter_float_ops env) limiter_config (limiter_table st)
           (''enhanced_deep_'' @ uid) now
         = (Inr (True, w), tb)"
        by (cases "is_allowed (limiter_float_ops env) limiter_config (limiter_table st)
                     (''enhanced_deep_'' @ uid) now")
          (auto simp add: map_sum_def split: sum.splits)
      with Some False show ?thesis by (simp add: table_def)
    qed
  qed
  then obtain w where g: "(case user_id of
                 None \<Rightarrow> (Inr (True, None), limiter_table st)
               | Some uid \<Rightarrow>
                   if uid = [] then (Inr (True, None), limiter_table st)
                   else is_allowed (limiter_float_ops env) limiter_config (limiter_table st)
                          (''enhanced_deep_'' @ uid) now) = (Inr (True, w), table)"
    by blast
  from run_phase1_analysis_all_fail [OF assms(2), of st0] obtain p where
    p: "run_phase1_analysis env st0 content theme analysis_type
        = (p, st0\<lparr>service_calls := service_calls st0 @
                    [(''kimi_k2'', analysis_type), (''qwen3_235b'', analysis_type),
                     (''deepseek_r1'', analysis_type)]\<rparr>)"
      and z: "successful_models p = 0"
    by blast
  have v: "\<not> blank content" "\<not> blank theme"
      "enhanced_cache st
         (''enhanced_deep_analysis:'' @ analysis_type @ '':''
          @ md5_of env (content @ theme @ analysis_type @ ''enhanced'')) = None"
    using assms(1) by (simp_all add: reaches_phase1_def)
  have n: "(phase2_model, ''synthesis'') \<notin>
           set [(''kimi_k2'', analysis_type), (''qwen3_235b'', analysis_type),
                (''deepseek_r1'', analysis_type)]"
    by (simp add: phase2_model_def)
  show ?thesis
    unfolding analyze_enhanced_deep_def Let_def
    using v n
    by (simp add: g st0_def [symmetric] p run_phase2_synthesis_guard [OF z] z)
      (simp add: st0_def)
qed

lemma reaches_phase1_example:
  "reaches_phase1 all_calls_time_out one_per_minute fresh_orchestrator 0
     ''Texto da reda'' ''Tema'' ''full'' None"
  by (simp add: reaches_phase1_def blank_def strip_def is_space_def fresh_orchestrator_def)

lemma phase1_all_fail_example:
  "phase1_all_fail all_calls_time_out ''Texto da reda'' ''Tema'' ''full''"
  by (simp add: phase1_all_fail_def all_calls_time_out_def)

theorem analyze_enhanced_deep_degraded_witness:
  "reaches_phase1 all_calls_time_out one_per_minute fresh_orchestrator 0
     ''Texto da reda'' ''Tema'' ''full'' None
   \<and> phase1_all_fail all_calls_time_out ''Texto da reda'' ''Tema'' ''full''
   \<and> (\<exists>result st'.
         analyze_enhanced_deep all_calls_time_out one_per_minute fresh_orchestrator 0
           ''Texto da reda'' ''Tema'' ''full'' None = (Inr result, st')
         \<and> \<not> p2_success (e_phase2_result result)
         \<and> p2_reliability_level (e_phase2_result result) = ''very_low''
         \<and> p2_final_score (e_phase2_result result) = None
         \<and> service_calls st' =
             [(''kimi_k2'', ''full''), (''qwen3_235b'', ''full''), (''deepseek_r1'', ''full'')])"
proof -
  from analyze_enhanced_deep_degraded [OF reaches_phase1_example phase1_all_fail_example]
  obtain result st' where
    "analyze_enhanced_deep all_calls_time_out one_per_minute fresh_orchestrator 0
       ''Texto da reda'' ''Tema'' ''full'' None = (Inr result, st')"
    "\<not> p2_success (e_phase2_result result)"
    "p2_reliability_level (e_phase2_result result) = ''very_low''"
    "p2_final_score (e_phase2_result result) = None"
    "service_calls st' = service_calls fresh_orchestrator @
       [(''kimi_k2'', ''full''), (''qwen3_235b'', ''full''), (''deepseek_r1'', ''full'')]"
    by blast
  then show ?thesis
    using reaches_phase1_example phase1_all_fail_example
    by (auto simp add: fresh_orchestrator_def)
qed

text \<open>
  With one successful primary model the guard does not fire and the synthesis model is
  called; when that call returns, the label follows the number of successes.
\<close>

lemma run_phase2_synthesis_called:
  assumes "1 \<le> successful_models p"
  shows "service_calls (snd (run_phase2_synthesis env st content theme exam_type p))
         = service_calls st @ [(''llama_49b'', ''synthesis'')]"
  using assms
  by (simp add: run_phase2_synthesis_def min_successful_models_def phase2_model_def Let_def
      split: call_outcome.splits)

section \<open>Rate limiter: the sliding window\<close>

lemma py_min_Min: "xs \<noteq> [] \<Longrightarrow> py_min xs = Inr (Min (set xs))"
proof (cases xs)
  case Nil
  assume "xs \<noteq> []"
  with Nil show ?thesis by simp
next
  case (Cons a list)
  then show ?thesis
    using Min.set_eq_fold [of a list] by simp
qed

lemma is_allowed_unfold:
  assumes "1 \<le> requests_per_minute config"
  shows "is_allowed ar config requests user_id now =
     (let window = real_of_int (window_size config);
          remaining = filter (\<lambda>t. fl_sub ar now window < t) (recorded requests user_id)
      in if int (length remaining) < requests_per_minute config
         then (Inr (True, None), requests(user_id \<mapsto> remaining @ [now]))
         else (Inr (False, Some (max 0 (fl_sub ar (fl_add ar (Min (set remaining)) window) now))),
               requests(user_id \<mapsto> remaining)))"
proof -
  define window where "window = real_of_int (window_size config)"
  define remaining where
    "remaining = filter (\<lambda>t. fl_sub ar now window < t) (recorded requests user_id)"
  show ?thesis
  proof (cases "int (length remaining) < requests_per_minute config")
    case True
    then show ?thesis
      by (auto simp add: is_allowed_def Let_def recorded_def remaining_def window_def
          split: option.splits)
  next
    case False
    with assms have n: "remaining \<noteq> []" by auto
    show ?thesis
      using False n py_min_Min [OF n]
      by (auto simp add: is_allowed_def Let_def recorded_def remaining_def window_def
          split: option.splits)
  qed
qed

text \<open>
  C9, as amended. For a limiter that admits at least one request per window, the check
  keeps the timestamps strictly newer than \<open>now - window_size\<close> (a timestamp exactly
  \<open>window_size\<close> old is discarded with the older ones); below \<open>max_requests\<close> it
  records \<open>now\<close> and allows with no wait time, otherwise it denies with the wait
  \<open>max(0, oldest + window_size - now)\<close>; sums and differences are the floating-point
  ones, whatever their rounding. With one request per 60 seconds, a key without
  timestamps, and rounding errors of at most \<open>eps\<close>, not above one second, on the
  operations involved: a check at \<open>t1\<close> is allowed, a check less than a second later is
  denied with a positive wait, and a check at \<open>t1 + 60 + eps\<close> or later is allowed again.
\<close>

theorem rate_limiter_check:
  "(1 \<le> requests_per_minute config \<longrightarrow>
      is_allowed ar config requests user_id now =
        (let window = real_of_int (window_size config);
             remaining = filter (\<lambda>t. fl_sub ar now window < t) (recorded requests user_id)
         in if int (length remaining) < requests_per_minute config
            then (Inr (True, None), requests(user_id \<mapsto> remaining @ [now]))
            else (Inr (False,
                       Some (max 0 (fl_sub ar (fl_add ar (Min (set remaining)) window) now))),
                  requests(user_id \<mapsto> remaining))))
   \<and> (recorded requests user_id = [] \<and> t1 \<le> t2 \<and> t2 < t1 + 1 \<and> t1 + 60 + eps \<le> t3
        \<and> eps \<le> 1 \<and> rounds_within ar eps t2 60 \<and> rounds_within ar eps t1 60
        \<and> rounds_within ar eps (fl_add ar t1 60) t2 \<and> rounds_within ar eps t3 60 \<longrightarrow>
        (let first = is_allowed ar one_per_minute requests user_id t1;
             second = is_allowed ar one_per_minute (snd first) user_id t2;
             third = is_allowed ar one_per_minute (snd second) user_id t3
         in fst first = Inr (True, None)
            \<and> fst second = Inr (False, Some (fl_sub ar (fl_add ar t1 60) t2))
            \<and> 0 < fl_sub ar (fl_add ar t1 60) t2
            \<and> fst third = Inr (True, None)))"
proof (intro conjI impI)
  assume "1 \<le> requests_per_minute config"
  then show "is_allowed ar config requests user_id now =
        (let window = real_of_int (window_size config);
             remaining = filter (\<lambda>t. fl_sub ar now window < t) (recorded requests user_id)
         in if int (length remaining) < requests_per_minute config
            then (Inr (True, None), requests(user_id \<mapsto> remaining @ [now]))
            else (Inr (False,
                       Some (max 0 (fl_sub ar (fl_add ar (Min (set remaining)) window) now))),
                  requests(user_id \<mapsto> remaining)))"
    by (rule is_allowed_unfold)
next
  assume a: "recorded requests user_id = [] \<and> t1 \<le> t2 \<and> t2 < t1 + 1 \<and> t1 + 60 + eps \<le> t3
        \<and> eps \<le> 1 \<and> rounds_within ar eps t2 60 \<and> rounds_within ar eps t1 60
        \<and> rounds_within ar eps (fl_add ar t1 60) t2 \<and> rounds_within ar eps t3 60"
  have c: "1 \<le> requests_per_minute one_per_minute"
    by (simp add: one_per_minute_def)
  have w2: "fl_sub ar t2 60 < t1"
    using a by (auto simp add: rounds_within_def)
  have sum: "t1 + 60 - eps \<le> fl_add ar t1 60"
    using a by (auto simp add: rounds_within_def)
  have "fl_add ar t1 60 - t2 - eps \<le> fl_sub ar (fl_add ar t1 60) t2"
    using a by (auto simp add: rounds_within_def)
  with sum a have pos: "0 < fl_sub ar (fl_add ar t1 60) t2"
    by auto
  have w3: "\<not> fl_sub ar t3 60 < t1"
    using a by (auto simp add: rounds_within_def)
  have 1: "is_allowed ar one_per_minute requests user_id t1
            = (Inr (True, None), requests(user_id \<mapsto> [t1]))"
    unfolding is_allowed_unfold [OF c] using a by (simp add: one_per_minute_def)
  have 2: "is_allowed ar one_per_minute (requests(user_id \<mapsto> [t1])) user_id t2
            = (Inr (False, Some (fl_sub ar (fl_add ar t1 60) t2)), requests(user_id \<mapsto> [t1]))"
    unfolding is_allowed_unfold [OF c] using w2 pos
    by (simp add: one_per_minute_def recorded_def)
  have 3: "is_allowed ar one_per_minute (requests(user_id \<mapsto> [t1])) user_id t3
            = (Inr (True, None), requests(user_id \<mapsto> [t3]))"
    unfolding is_allowed_unfold [OF c] using w3
    by (simp add: one_per_minute_def recorded_def)
  show "let first = is_allowed ar one_per_minute requests user_id t1;
             second = is_allowed ar one_per_minute (snd first) user_id t2;
             third = is_allowed ar one_per_minute (snd second) user_id t3
         in fst first = Inr (True, None)
            \<and> fst second = Inr (False, Some (fl_sub ar (fl_add ar t1 60) t2))
            \<and> 0 < fl_sub ar (fl_add ar t1 60) t2
            \<and> fst third = Inr (True, None)"
    using pos by (simp add: 1 2 3)
qed

theorem rate_limiter_check_witness:
  "1 \<le> requests_per_minute one_per_minute
   \<and> is_allowed exact_arith one_per_minute [''user'' \<mapsto> [5, 100]] ''user'' 110
       = (Inr (False, Some 50), [''user'' \<mapsto> [100]])
   \<and> recorded Map.empty ''user'' = []
   \<and> rounds_within exact_arith 0 (21 / 2) 60 \<and> rounds_within exact_arith 0 10 60
   \<and> rounds_within exact_arith 0 (fl_add exact_arith 10 60) (21 / 2)
   \<and> rounds_within exact_arith 0 70 60
   \<and> fst (is_allowed exact_arith one_per_minute Map.empty ''user'' 10) = Inr (True, None)
   \<and> fst (is_allowed exact_arith one_per_minute [''user'' \<mapsto> [10]] ''user'' (21 / 2))
       = Inr (False, Some (119 / 2))
   \<and> fst (is_allowed exact_arith one_per_minute [''user'' \<mapsto> [10]] ''user'' 70)
       = Inr (True, None)"
proof -
  have c: "1 \<le> requests_per_minute one_per_minute"
    by (simp add: one_per_minute_def)
  have r: "rounds_within exact_arith 0 (21 / 2) 60" "rounds_within exact_arith 0 10 60"
    "rounds_within exact_arith 0 (fl_add exact_arith 10 60) (21 / 2)"
    "rounds_within exact_arith 0 70 60"
    by (simp_all add: rounds_within_def exact_arith_def)
  have a: "recorded Map.empty ''user'' = [] \<and> (10::real) \<le> 21 / 2 \<and> (21 / 2 :: real) < 10 + 1
           \<and> (10::real) + 60 + 0 \<le> 70 \<and> (0::real) \<le> 1"
    by (simp add: recorded_def)
  have g: "is_allowed exact_arith one_per_minute [''user'' \<mapsto> [5, 100]] ''user'' 110
       = (Inr (False, Some 50), [''user'' \<mapsto> [100]])"
    using rate_limiter_check
      [of one_per_minute exact_arith "[''user'' \<mapsto> [5, 100]]" "''user''" 110] c
    by (simp add: one_per_minute_def recorded_def exact_arith_def)
  have s: "fst (is_allowed exact_arith one_per_minute Map.empty ''user'' 10) = Inr (True, None)
     \<and> fst (is_allowed exact_arith one_per_minute
               (snd (is_allowed exact_arith one_per_minute Map.empty ''user'' 10)) ''user''
               (21 / 2))
         = Inr (False, Some (fl_sub exact_arith (fl_add exact_arith 10 60) (21 / 2)))
     \<and> fst (is_allowed exact_arith one_per_minute
               (snd (is_allowed exact_arith one_per_minute
                       (snd (is_allowed exact_arith one_per_minute Map.empty ''user'' 10))
                       ''user'' (21 / 2))) ''user'' 70)
         = Inr (True, None)"
    using rate_limiter_check
      [of one_per_minute exact_arith Map.empty "''user''" 10 10 "21 / 2" 0 70] a r
    by (simp add: Let_def)
  have e: "fl_sub exact_arith (fl_add exact_arith 10 60) (21 / 2) = 119 / 2"
    by (simp add: exact_arith_def)
  have 1: "snd (is_allowed exact_arith one_per_minute Map.empty ''user'' 10)
           = [''user'' \<mapsto> [10]]"
    by (simp add: is_allowed_def one_per_minute_def Let_def)
  have 2: "snd (is_allowed exact_arith one_per_minute [''user'' \<mapsto> [10]] ''user'' (21 / 2))
           = [''user'' \<mapsto> [10]]"
    by (simp add: is_allowed_def one_per_minute_def exact_arith_def Let_def)
  show ?thesis
    using c a g s r by (simp add: 1 2 e)
qed

text \<open>
  The wait of a denial is not positive in general. In IEEE doubles \<open>60.3 - 60\<close> is
  below \<open>0.3\<close> and \<open>0.3 + 60\<close> is \<open>60.3\<close>: a limiter holding the timestamp 0.3 denies
  the check at 60.3 with wait zero.
\<close>

lemma is_allowed_zero_wait:
  assumes "fl_sub ar (603 / 10) 60 < 3 / 10"
    and "fl_sub ar (fl_add ar (3 / 10) 60) (603 / 10) = 0"
  shows "fst (is_allowed ar one_per_minute [''user'' \<mapsto> [3 / 10]] ''user'' (603 / 10))
         = Inr (False, Some 0)"
  using assms by (simp add: is_allowed_def one_per_minute_def Let_def)

text \<open>
  C9, as stated, fails at the boundary: with one timestamp recorded at time 0 and a check
  at time 60, the timestamp is not older than \<open>now - window_size\<close>, so the specified
  check keeps it and denies with wait 0; the code discards it and allows. (On these
  values the floating-point operations are exact: \<open>60 - 60 = 0\<close>.)
\<close>

theorem rate_limiter_boundary_counterexample:
  "fst (is_allowed exact_arith one_per_minute [''user'' \<mapsto> [0]] ''user'' 60) = Inr (True, None)
   \<and> fst (spec_check one_per_minute [0] 60) = (False, Some 0)"
  by (simp add: is_allowed_def spec_check_def one_per_minute_def exact_arith_def Let_def)

end
